theory Spec2Isabelle
  imports Complex_Main "HOL-Library.Option_ord" "HOL-Library.Log_Nat"
begin

section \<open>Python values, exceptions, strings and floats\<close>

text \<open>
  The repository is a Python backend. A Python \<open>str\<close> is modelled by its UTF-8
  encoding, a list of bytes (\<open>string\<close>); Python integers are \<open>int\<close> or, for counts,
  \<open>nat\<close>. Every exception that a modelled function can raise is a value of \<open>py_exc\<close>;
  a function that can raise returns \<open>py_exc + 'a\<close> with \<open>Inl\<close> for the exception.
\<close>

datatype py_exc =
    KeyError string
  | TypeError
  | ValueError
  | AttributeError
  | ZeroDivisionError
  | JSONDecodeError
  | OverflowError
  | IntegrityError
  | StatementError

text \<open>\<open>str(n)\<close> for an integer: its decimal digits.\<close>

definition digit_char :: "nat \<Rightarrow> char" where
  "digit_char d = ''0123456789'' ! d"

function str_nat :: "nat \<Rightarrow> string" where
  "str_nat n = (if n < 10 then [digit_char n] else str_nat (n div 10) @ [digit_char (n mod 10)])"
  by pat_completeness auto
termination
  by (relation "measure id") auto

declare str_nat.simps [simp del]

definition str_int :: "int \<Rightarrow> string" where
  "str_int i = (if i < 0 then CHR ''-'' # str_nat (nat (- i)) else str_nat (nat i))"

subsection \<open>Strings\<close>

text \<open>
  \<open>s.strip(chars)\<close> removes from both ends every character that occurs in \<open>chars\<close>
  (the code passes ASCII characters only, which are single bytes).
\<close>

definition py_strip_chars :: "string \<Rightarrow> string \<Rightarrow> string" where
  "py_strip_chars chars s =
     rev (dropWhile (\<lambda>c. c \<in> set chars) (rev (dropWhile (\<lambda>c. c \<in> set chars) s)))"

text \<open>
  \<open>s.strip()\<close> removes the white space characters of Unicode from both ends: U+0009
  to U+000D, U+001C to U+0020, U+0085, U+00A0, U+1680, U+2000 to U+200A, U+2028, U+2029,
  U+202F, U+205F and U+3000, here in UTF-8. \<open>ws_prefix s\<close> is the number of bytes of
  the white space character that \<open>s\<close> begins with, 0 when it begins with none;
  \<open>ws_suffix\<close> is the same at the end. One character is removed in every step, so as
  many steps as \<open>s\<close> has bytes remove them all.
\<close>

definition unicode_whitespace :: "string list" where
  "unicode_whitespace =
     [[CHR 0x09], [CHR 0x0A], [CHR 0x0B], [CHR 0x0C], [CHR 0x0D],
      [CHR 0x1C], [CHR 0x1D], [CHR 0x1E], [CHR 0x1F], [CHR 0x20],
      [CHR 0xC2, CHR 0x85], [CHR 0xC2, CHR 0xA0], [CHR 0xE1, CHR 0x9A, CHR 0x80],
      [CHR 0xE2, CHR 0x80, CHR 0x80], [CHR 0xE2, CHR 0x80, CHR 0x81],
      [CHR 0xE2, CHR 0x80, CHR 0x82], [CHR 0xE2, CHR 0x80, CHR 0x83],
      [CHR 0xE2, CHR 0x80, CHR 0x84], [CHR 0xE2, CHR 0x80, CHR 0x85],
      [CHR 0xE2, CHR 0x80, CHR 0x86], [CHR 0xE2, CHR 0x80, CHR 0x87],
      [CHR 0xE2, CHR 0x80, CHR 0x88], [CHR 0xE2, CHR 0x80, CHR 0x89],
      [CHR 0xE2, CHR 0x80, CHR 0x8A], [CHR 0xE2, CHR 0x80, CHR 0xA8],
      [CHR 0xE2, CHR 0x80, CHR 0xA9], [CHR 0xE2, CHR 0x80, CHR 0xAF],
      [CHR 0xE2, CHR 0x81, CHR 0x9F], [CHR 0xE3, CHR 0x80, CHR 0x80]]"

definition ws_prefix :: "string \<Rightarrow> nat" where
  "ws_prefix s =
     (case find (\<lambda>w. take (length w) s = w) unicode_whitespace of
        None \<Rightarrow> 0
      | Some w \<Rightarrow> length w)"

definition ws_suffix :: "string \<Rightarrow> nat" where
  "ws_suffix s =
     (case find (\<lambda>w. length w \<le> length s \<and> drop (length s - length w) s = w)
             unicode_whitespace of
        None \<Rightarrow> 0
      | Some w \<Rightarrow> length w)"

primrec lstrip_steps :: "nat \<Rightarrow> string \<Rightarrow> string" where
  "lstrip_steps 0 s = s"
| "lstrip_steps (Suc n) s =
     (if ws_prefix s = 0 then s else lstrip_steps n (drop (ws_prefix s) s))"

primrec rstrip_steps :: "nat \<Rightarrow> string \<Rightarrow> string" where
  "rstrip_steps 0 s = s"
| "rstrip_steps (Suc n) s =
     (if ws_suffix s = 0 then s else rstrip_steps n (take (length s - ws_suffix s) s))"

definition py_strip :: "string \<Rightarrow> string" where
  "py_strip s = rstrip_steps (length s) (lstrip_steps (length s) s)"

text \<open>
  \<open>s.replace('_', ' ')\<close>, and \<open>needle in s\<close> for strings. \<open>s.lower()\<close> and
  \<open>s.title()\<close> follow the case tables of Unicode, which are part of Python: where the
  code calls them they are parameters \<open>str_lower\<close> and \<open>str_title\<close> of the model.
\<close>

definition replace_us :: "string \<Rightarrow> string" where
  "replace_us s = map (\<lambda>c. if c = CHR ''_'' then CHR '' '' else c) s"

fun contains :: "string \<Rightarrow> string \<Rightarrow> bool" where
  "contains needle [] = (needle = [])"
| "contains needle (c # cs) = (take (length needle) (c # cs) = needle \<or> contains needle cs)"

subsection \<open>Floats\<close>

text \<open>
  Python's \<open>float\<close> is the binary64 format of IEEE 754. A float is modelled by the
  rational number it holds, and \<open>fl x\<close> is the float nearest to the rational \<open>x\<close>, a
  tie going to the even significand: the result of one correctly rounded operation.
  (Overflow and subnormal numbers are not modelled: the values that occur are counts,
  percentages and times.) \<open>round_half_even\<close> is Python's \<open>round\<close> of a float to an
  integer.
\<close>

definition round_half_even :: "rat \<Rightarrow> int" where
  "round_half_even x =
     (let f = \<lfloor>x\<rfloor>; r = x - of_int f in
      if r < 1 / 2 then f else if 1 / 2 < r then f + 1 else if even f then f else f + 1)"

definition pow2 :: "int \<Rightarrow> rat" where
  "pow2 k = (if 0 \<le> k then 2 ^ nat k else 1 / 2 ^ nat (- k))"

text \<open>\<open>exponent a\<close> for \<open>a > 0\<close>: the \<open>e\<close> with \<open>2 ^ e \<le> a < 2 ^ (e + 1)\<close>.\<close>

definition exponent :: "rat \<Rightarrow> int" where
  "exponent a =
     (let (n, d) = quotient_of a;
          e0 = bitlen n - bitlen d
      in if pow2 e0 \<le> a then e0 else e0 - 1)"

definition fl :: "rat \<Rightarrow> rat" where
  "fl x = (if x = 0 then 0
           else let e = exponent \<bar>x\<bar>
                in of_int (round_half_even (x / pow2 (e - 52))) * pow2 (e - 52))"

text \<open>
  \<open>round(c / total * 100)\<close> for counts \<open>c\<close> and \<open>total > 0\<close>: the quotient of two
  integers is correctly rounded, the product with 100 is rounded again, and \<open>round\<close>
  takes the nearest integer of that float.
\<close>

definition py_round_pct :: "nat \<Rightarrow> nat \<Rightarrow> nat" where
  "py_round_pct c n_total =
     nat (round_half_even (fl (fl (of_nat c / of_nat n_total) * 100)))"

section \<open>AI analysis engine (ai\_analyzer.py)\<close>

subsection \<open>The external model call\<close>

text \<open>
  \<open>_call_ai(prompt, system, max_tokens)\<close> returns the empty string when
  \<open>GEMINI_API_KEY\<close> is empty. Otherwise it attempts one call of the external model inside
  \<open>try\<close>; any exception gives the empty string, and a reply gives \<open>response.text or ""\<close>.
  What the external service does is a parameter of the model (\<open>genai_outcome\<close>); the
  prompt and the system instruction are fixed templates filled with the caller's
  arguments, they are sent to the service and have no other use, so they are not
  represented. The second component of the result is the log of attempted external calls,
  each recorded by its \<open>max_output_tokens\<close>.
\<close>

datatype genai_outcome = GenaiRaises | GenaiText "string option"

definition call_ai :: "string \<Rightarrow> genai_outcome \<Rightarrow> nat \<Rightarrow> string \<times> nat list" where
  "call_ai GEMINI_API_KEY outcome max_tokens =
     (if GEMINI_API_KEY = [] then ([], [])
      else (case outcome of
              GenaiRaises \<Rightarrow> ([], [max_tokens])
            | GenaiText t \<Rightarrow> ((case t of None \<Rightarrow> [] | Some s \<Rightarrow> s), [max_tokens])))"

subsection \<open>classify\_ad\<close>

text \<open>
  A parsed JSON value: \<open>JNum\<close> is an \<open>int\<close>, \<open>JFloat\<close> a \<open>float\<close>. An object is the
  list of its members, as a Python dictionary holds them: no key twice.
\<close>

datatype json =
    JNull
  | JBool bool
  | JNum int
  | JFloat rat
  | JStr string
  | JArr "json list"
  | JObj "(string \<times> json) list"

text \<open>
  \<open>json.loads\<close> is library code: it is a parameter \<open>json_loads\<close>, with \<open>None\<close> for
  a raised \<open>JSONDecodeError\<close>. The body of the \<open>try\<close> block of \<open>classify_ad\<close> is
  \<open>parse_reply\<close>; the \<open>except Exception\<close> handler returns the fixed fallback object.
  The arguments \<open>ad_body\<close>, \<open>ad_title\<close>, \<open>competitor\<close> and \<open>brand_category\<close> only enter
  the prompt.
\<close>

definition code_fence :: string where
  "code_fence = [CHR 0x60, CHR 0x60, CHR 0x60]"

definition clean_reply :: "string \<Rightarrow> string" where
  "clean_reply result =
     py_strip (py_strip_chars code_fence (py_strip_chars (code_fence @ ''json'') (py_strip result)))"

definition parse_reply :: "(string \<Rightarrow> json option) \<Rightarrow> string \<Rightarrow> py_exc + json" where
  "parse_reply json_loads result =
     (case json_loads (clean_reply result) of
        None \<Rightarrow> Inl JSONDecodeError
      | Some j \<Rightarrow> Inr j)"

definition classify_fallback :: json where
  "classify_fallback = JObj
     [(''theme'', JStr ''unknown''),
      (''sentiment'', JStr ''unknown''),
      (''cta_type'', JStr ''unknown''),
      (''creative_angle'', JStr ''Could not analyze''),
      (''has_price_mention'', JBool False),
      (''has_social_proof'', JBool False),
      (''has_expert_endorsement'', JBool False)]"

definition classify_ad ::
  "string \<Rightarrow> genai_outcome \<Rightarrow> (string \<Rightarrow> json option) \<Rightarrow>
   string \<Rightarrow> string \<Rightarrow> string \<Rightarrow> string \<Rightarrow> py_exc + json" where
  "classify_ad GEMINI_API_KEY outcome json_loads ad_body ad_title competitor brand_category =
     (let result = fst (call_ai GEMINI_API_KEY outcome 400) in
      case parse_reply json_loads result of
        Inl e \<Rightarrow> Inr classify_fallback
      | Inr j \<Rightarrow> Inr j)"

text \<open>A \<open>json.loads\<close> that accepts only the text \<open>{}\<close>, used in examples.\<close>

definition loads_only_empty_object :: "string \<Rightarrow> json option" where
  "loads_only_empty_object s = (if s = ''{}'' then Some (JObj []) else None)"

subsection \<open>The ads handed to the analysis engine\<close>

text \<open>
  The ads handed to the analysis engine are dictionaries of either the persisted or the
  sample shape. The record \<open>ad\<close> has one field for every key the engine reads:
  \<open>ad_k\<close> is the key \<open>k\<close> and \<open>ad_u_k\<close> is the key \<open>_k\<close>. A key is absent, or holds
  \<open>None\<close>, or holds a value, which is a string or a flag.
\<close>

datatype 'a field = Absent | Null | Value 'a

record ad =
  ad_theme :: "string field"
  ad_u_theme :: "string field"
  ad_media_type :: "string field"
  ad_competitor_name :: "string field"
  ad_u_competitor :: "string field"
  ad_is_active :: "bool field"
  ad_u_is_active :: "bool field"
  ad_is_top_performer :: "bool field"
  ad_u_is_top_performer :: "bool field"

text \<open>
  \<open>a.get(k, default)\<close>: the result is a Python value, \<open>None\<close> included.
  \<open>a.get(k) or a.get(_k, default)\<close> takes the first value when it is truthy: a true flag,
  a string that is not empty.
\<close>

definition get_default :: "'a field \<Rightarrow> 'a option \<Rightarrow> 'a option" where
  "get_default f dflt = (case f of Absent \<Rightarrow> dflt | Null \<Rightarrow> None | Value v \<Rightarrow> Some v)"

definition flag_or :: "bool field \<Rightarrow> bool field \<Rightarrow> bool" where
  "flag_or primary alt =
     (if primary = Value True then True else get_default alt (Some False) = Some True)"

definition str_or :: "string field \<Rightarrow> string field \<Rightarrow> string \<Rightarrow> string option" where
  "str_or primary alt dflt =
     (case primary of
        Value s \<Rightarrow> if s \<noteq> [] then Some s else get_default alt (Some dflt)
      | _ \<Rightarrow> get_default alt (Some dflt))"

subsection \<open>generate\_weekly\_brief\<close>

text \<open>
  The analysis handed to \<open>generate_weekly_brief\<close> is a dictionary: the list of its
  members. \<open>str(v)\<close> of a value, as an f-string formats it: a string is itself; the text
  of a float, of a list or of a dictionary is made by Python's \<open>repr\<close>, the parameter
  \<open>render\<close>.
\<close>

definition dict_get :: "(string \<times> json) list \<Rightarrow> string \<Rightarrow> json \<Rightarrow> json" where
  "dict_get d k dflt = (case map_of d k of None \<Rightarrow> dflt | Some v \<Rightarrow> v)"

definition py_str :: "(json \<Rightarrow> string) \<Rightarrow> json \<Rightarrow> string" where
  "py_str render v =
     (case v of
        JStr s \<Rightarrow> s
      | JNull \<Rightarrow> ''None''
      | JBool b \<Rightarrow> (if b then ''True'' else ''False'')
      | JNum n \<Rightarrow> str_int n
      | _ \<Rightarrow> render v)"

text \<open>
  \<open>analysis.get("insights", [])[:5]\<close>: the first five items of a list. A dictionary, a
  number, a truth value and \<open>None\<close> cannot be sliced (\<open>TypeError\<close>); a string can, and
  its characters then fail in \<open>ins['title']\<close>. The line of one insight needs a
  dictionary with the keys \<open>title\<close> and \<open>detail\<close>.
\<close>

definition first_insights :: "json \<Rightarrow> py_exc + json list" where
  "first_insights v =
     (case v of
        JArr items \<Rightarrow> Inr (take 5 items)
      | JStr s \<Rightarrow> if s = [] then Inr [] else Inl TypeError
      | _ \<Rightarrow> Inl TypeError)"

definition insight_line :: "(json \<Rightarrow> string) \<Rightarrow> json \<Rightarrow> py_exc + string" where
  "insight_line render ins =
     (case ins of
        JObj members \<Rightarrow>
          (case map_of members ''title'' of
             None \<Rightarrow> Inl (KeyError ''title'')
           | Some t \<Rightarrow>
               (case map_of members ''detail'' of
                  None \<Rightarrow> Inl (KeyError ''detail'')
                | Some d \<Rightarrow> Inr (''- '' @ py_str render t @ '': '' @ py_str render d)))
      | _ \<Rightarrow> Inl TypeError)"

fun insight_lines :: "(json \<Rightarrow> string) \<Rightarrow> json list \<Rightarrow> py_exc + string list" where
  "insight_lines render [] = Inr []"
| "insight_lines render (ins # rest) =
     (case insight_line render ins of
        Inl e \<Rightarrow> Inl e
      | Inr line \<Rightarrow>
          (case insight_lines render rest of
             Inl e \<Rightarrow> Inl e
           | Inr lines \<Rightarrow> Inr (line # lines)))"

fun join :: "string \<Rightarrow> string list \<Rightarrow> string" where
  "join sep [] = []"
| "join sep [x] = x"
| "join sep (x # y # ys) = x @ sep @ join sep (y # ys)"

definition insights_text :: "(json \<Rightarrow> string) \<Rightarrow> (string \<times> json) list \<Rightarrow> py_exc + string" where
  "insights_text render analysis =
     (case first_insights (dict_get analysis ''insights'' (JArr [])) of
        Inl e \<Rightarrow> Inl e
      | Inr items \<Rightarrow>
          (case insight_lines render items of
             Inl e \<Rightarrow> Inl e
           | Inr lines \<Rightarrow> Inr (join [CHR 0x0A] lines)))"

text \<open>
  The current time enters \<open>generate_weekly_brief\<close> only through two \<open>strftime\<close>
  renderings of \<open>datetime.now()\<close>, which are inputs of the model.
\<close>

record clock =
  date_long :: string
  stamp :: string

definition no_data_phrase :: string where
  "no_data_phrase = ''No competitor ad data available for this period''"

definition empty_brief :: "string \<Rightarrow> string" where
  "empty_brief brand_display =
     ''# Weekly Brief '' @ [CHR 0xE2, CHR 0x80, CHR 0x94] @ '' '' @ brand_display @
     [CHR 0x0A, CHR 0x0A] @ ''No competitor ad data available for this period.''"

text \<open>
  The fixed-template brief. \<open>dominant\<close> is the dominant theme with its underscores
  replaced, which the caller computes.
\<close>

definition fallback_brief ::
  "(json \<Rightarrow> string) \<Rightarrow> clock \<Rightarrow> string \<Rightarrow> nat \<Rightarrow> nat \<Rightarrow> nat \<Rightarrow> (string \<times> json) list \<Rightarrow>
   string \<Rightarrow> string" where
  "fallback_brief render clock brand_display n_total active top_performers analysis dominant =
     ''# Weekly Competitive Intelligence Brief '' @ [CHR 0xE2, CHR 0x80, CHR 0x94] @ '' '' @
     brand_display @ [CHR 0x0A] @ ''**Week of '' @ date_long clock @ ''** | '' @
     str_nat n_total @ '' ads tracked | '' @ str_nat active @ '' active'' @
     [CHR 0x0A, CHR 0x0A] @ ''## TL;DR'' @ [CHR 0x0A] @ ''Competitors are running '' @
     str_nat n_total @ '' ads this week with '' @
     py_str render (dict_get analysis ''top_spending_competitor'' (JStr ''multiple brands'')) @
     '' leading activity. The '' @ dominant @
     '' format is dominating across the competitive set.'' @ [CHR 0x0A, CHR 0x0A] @ ''## '' @
     [CHR 0xF0, CHR 0x9F, CHR 0x94, CHR 0xA5] @ '' What'' @ [CHR 0x27] @
     ''s Working for Competitors'' @ [CHR 0x0A] @ ''- **UGC testimonials are everywhere** '' @
     [CHR 0xE2, CHR 0x80, CHR 0x94] @ '' '' @
     str_nat (if n_total \<noteq> 0 then py_round_pct active n_total else 0) @
     ''% of active ads use real customer stories, making authenticity '' @
     ''the key creative strategy.'' @ [CHR 0x0A] @ ''- **Long-running ads reveal hits** '' @
     [CHR 0xE2, CHR 0x80, CHR 0x94] @ '' '' @ str_nat top_performers @
     '' ads have been running 30+ days, signaling competitors found '' @
     ''winning creatives they'' @ [CHR 0x27] @ ''re scaling hard.'' @ [CHR 0x0A] @ ''- **'' @
     py_str render (dict_get analysis ''top_spending_competitor'' (JStr ''Leading competitor'')) @
     '' is flooding feeds** with aggressive frequency across Facebook '' @
     ''and Instagram simultaneously.'' @ [CHR 0x0A, CHR 0x0A] @ ''## '' @
     [CHR 0xF0, CHR 0x9F, CHR 0x93, CHR 0x89] @ '' What'' @ [CHR 0x27] @ ''s Declining'' @
     [CHR 0x0A] @ ''- **Doctor/authority ads declining** '' @ [CHR 0xE2, CHR 0x80, CHR 0x94] @
     '' clinical tone is giving way to community storytelling as the '' @ ''dominant voice.'' @
     [CHR 0x0A, CHR 0x0A] @ ''## '' @ [CHR 0xF0, CHR 0x9F, CHR 0x92, CHR 0xA1] @
     '' The Gap to Exploit'' @ [CHR 0x0A] @ ''**'' @
     py_str render (dict_get analysis ''underused_format'' (JStr ''CAROUSEL'')) @
     '' ads are nearly absent** from competitors'' @ [CHR 0x27] @
     '' mix. This is an immediate whitespace for '' @ brand_display @
     '' to claim ownable creative territory.'' @ [CHR 0x0A, CHR 0x0A] @ ''## '' @
     [CHR 0xF0, CHR 0x9F, CHR 0x8E, CHR 0xAF] @ '' 3 Actions This Week'' @ [CHR 0x0A] @
     ''1. Launch 2 UGC-style testimonial ads to match competitor '' @
     ''parity in the dominant format.'' @ [CHR 0x0A] @ ''2. Create 1 '' @
     py_str render (dict_get analysis ''underused_format'' (JStr ''carousel'')) @
     '' ad to exploit the creative gap '' @ [CHR 0xE2, CHR 0x80, CHR 0x94] @
     '' no competitor is doing this.'' @ [CHR 0x0A] @
     ''3. Study the 3 longest-running competitor ads and identify the '' @ ''hook that'' @
     [CHR 0x27] @ ''s keeping them alive.'' @ [CHR 0x0A, CHR 0x0A] @
     ''## One Surprise Finding'' @ [CHR 0x0A] @ str_nat top_performers @
     '' ads have been running for over a month '' @ [CHR 0xE2, CHR 0x80, CHR 0x94] @
     '' at Meta'' @ [CHR 0x27] @
     ''s typical CPMs, that means these creatives have generated '' @
     ''millions of impressions. Your competitors found something that '' @
     ''works and are pouring budget into it. Find out what that hook '' @ ''is.'' @
     [CHR 0x0A, CHR 0x0A] @ ''---'' @ [CHR 0x0A] @ ''*Generated by Competitor Ad War Room '' @
     [CHR 0xE2, CHR 0x80, CHR 0xA2] @ '' '' @ stamp clock @ ''*''"

definition model_brief :: "clock \<Rightarrow> string \<Rightarrow> string \<Rightarrow> string" where
  "model_brief clock brand_display result =
     ''# Weekly Competitive Intelligence Brief '' @ [CHR 0xE2, CHR 0x80, CHR 0x94] @ '' '' @
     brand_display @ [CHR 0x0A] @ ''**Week of '' @ date_long clock @ ''**'' @
     [CHR 0x0A, CHR 0x0A] @ result @ [CHR 0x0A, CHR 0x0A] @ ''---'' @ [CHR 0x0A] @
     ''*Generated by Competitor Ad War Room '' @ [CHR 0xE2, CHR 0x80, CHR 0xA2] @ '' '' @
     stamp clock @ ''*''"

text \<open>
  \<open>generate_weekly_brief\<close> returns its text or the exception it raises, and the log of
  external calls. The lines of the insights are built before the external call, for the
  prompt; \<open>.replace\<close> on the dominant theme of the template raises \<open>AttributeError\<close>
  when that value is not a string.
\<close>

definition generate_weekly_brief ::
  "(string \<Rightarrow> string) \<Rightarrow> (json \<Rightarrow> string) \<Rightarrow> string \<Rightarrow> genai_outcome \<Rightarrow> clock \<Rightarrow>
   string \<Rightarrow> string \<Rightarrow> ad list \<Rightarrow> (string \<times> json) list \<Rightarrow> (py_exc + string) \<times> nat list" where
  "generate_weekly_brief str_lower render GEMINI_API_KEY outcome clock brand_key brand_display
     ads analysis =
     (if ads = [] then (Inr (empty_brief brand_display), [])
      else
        let n_total = length ads;
            active = length (filter (\<lambda>a. flag_or (ad_is_active a) (ad_u_is_active a)) ads);
            top_performers =
              length (filter (\<lambda>a. flag_or (ad_is_top_performer a) (ad_u_is_top_performer a)) ads)
        in (case insights_text render analysis of
              Inl e \<Rightarrow> (Inl e, [])
            | Inr prompt_insights \<Rightarrow>
                let (result, calls) = call_ai GEMINI_API_KEY outcome 800
                in if result = [] \<or> contains ''error'' (str_lower result)
                   then (case dict_get analysis ''dominant_theme'' (JStr ''UGC testimonial'') of
                           JStr s \<Rightarrow>
                             (Inr (fallback_brief render clock brand_display n_total active
                                     top_performers analysis (replace_us s)), calls)
                         | _ \<Rightarrow> (Inl AttributeError, calls))
                   else (Inr (model_brief clock brand_display result), calls)))"

subsection \<open>Rule-based fallback batch analysis\<close>

text \<open>
  \<open>collections.Counter\<close> keeps its keys in insertion order: it is modelled as an
  association list. \<open>counter_add k c\<close> is \<open>c[k] += 1\<close>. \<open>most_common(1)\<close> is computed
  by \<open>max\<close> over the items with the count as key, which returns the first item of
  maximal count.
\<close>

fun counter_add :: "'a \<Rightarrow> ('a \<times> nat) list \<Rightarrow> ('a \<times> nat) list" where
  "counter_add k [] = [(k, 1)]"
| "counter_add k ((k', n) # rest) =
     (if k = k' then (k', n + 1) # rest else (k', n) # counter_add k rest)"


fun most_common1 :: "('a \<times> nat) list \<Rightarrow> ('a \<times> nat) option" where
  "most_common1 [] = None"
| "most_common1 (x # xs) =
     (case most_common1 xs of
        None \<Rightarrow> Some x
      | Some y \<Rightarrow> if snd x < snd y then Some y else Some x)"

record insight =
  ins_type :: string
  title :: string
  detail :: string
  competitors_involved :: "string option list"
  urgency :: string
  recommended_action :: string

record batch_analysis =
  insights :: "insight list"
  dominant_theme :: string
  rising_theme :: string
  underused_format :: string
  top_spending_competitor :: "string option"
  summary_one_liner :: string

text \<open>
  The values the loop of \<open>_fallback_batch_analysis\<close> reads from one ad; \<open>None\<close> is
  Python's \<open>None\<close>, which a key with a null value gives.
\<close>

definition theme_of :: "ad \<Rightarrow> string option" where
  "theme_of a = str_or (ad_theme a) (ad_u_theme a) ''unknown''"

definition media_of :: "ad \<Rightarrow> string option" where
  "media_of a = get_default (ad_media_type a) (Some ''IMAGE'')"

definition competitor_of :: "ad \<Rightarrow> string option" where
  "competitor_of a = str_or (ad_competitor_name a) (ad_u_competitor a) ''unknown''"

record tally =
  themes :: "(string option \<times> nat) list"
  media_types :: "(string option \<times> nat) list"
  competitors :: "(string option \<times> nat) list"
  active_count :: nat
  top_performer_count :: nat

definition empty_tally :: tally where
  "empty_tally = \<lparr>themes = [], media_types = [], competitors = [],
                   active_count = 0, top_performer_count = 0\<rparr>"

definition tally_ad :: "tally \<Rightarrow> ad \<Rightarrow> tally" where
  "tally_ad t a =
     \<lparr>themes = counter_add (theme_of a) (themes t),
      media_types = counter_add (media_of a) (media_types t),
      competitors = counter_add (competitor_of a) (competitors t),
      active_count =
        (if flag_or (ad_is_active a) (ad_u_is_active a)
         then active_count t + 1 else active_count t),
      top_performer_count =
        (if flag_or (ad_is_top_performer a) (ad_u_is_top_performer a)
         then top_performer_count t + 1 else top_performer_count t)\<rparr>"

text \<open>
  \<open>themes.most_common(1)[0] if themes else ("unknown", 0)\<close> after the loop, and the
  like for the media types and the competitors.
\<close>

definition top_theme_of :: "ad list \<Rightarrow> string option \<times> nat" where
  "top_theme_of ads =
     (case most_common1 (themes (foldl tally_ad empty_tally ads)) of
        None \<Rightarrow> (Some ''unknown'', 0)
      | Some x \<Rightarrow> x)"

definition top_media_of :: "ad list \<Rightarrow> string option \<times> nat" where
  "top_media_of ads =
     (case most_common1 (media_types (foldl tally_ad empty_tally ads)) of
        None \<Rightarrow> (Some ''IMAGE'', 0)
      | Some x \<Rightarrow> x)"

definition top_comp_of :: "ad list \<Rightarrow> string option \<times> nat" where
  "top_comp_of ads =
     (case most_common1 (competitors (foldl tally_ad empty_tally ads)) of
        None \<Rightarrow> (Some ''unknown'', 0)
      | Some x \<Rightarrow> x)"


text \<open>
  \<open>list(all_formats - used_formats)\<close> lists a set of strings, in an order that depends
  on the string hashes of the running interpreter. The order is a parameter
  \<open>format_order\<close>: a list of the three formats, of which the unused ones are kept.
\<close>

definition underused_of :: "string list \<Rightarrow> (string option \<times> nat) list \<Rightarrow> string" where
  "underused_of format_order media_counter =
     (case filter (\<lambda>f. Some f \<notin> set (map fst media_counter)) format_order of
        [] \<Rightarrow> ''CAROUSEL''
      | f # _ \<Rightarrow> f)"

text \<open>An f-string writes \<open>None\<close> as the text \<open>None\<close>.\<close>

definition fmt_opt :: "string option \<Rightarrow> string" where
  "fmt_opt v = (case v of None \<Rightarrow> ''None'' | Some s \<Rightarrow> s)"

definition fallback_insights ::
  "(string \<Rightarrow> string) \<Rightarrow> string \<Rightarrow> nat \<Rightarrow> string \<times> nat \<Rightarrow> string option \<times> nat \<Rightarrow>
   string option \<times> nat \<Rightarrow> string option list \<Rightarrow> string \<Rightarrow> nat \<Rightarrow> insight list" where
  "fallback_insights str_title brand_display n_total top_theme top_media top_comp
     competitor_keys underused_fmt top_count =
     [\<lparr>ins_type = ''trend'',
       title =
          str_title (replace_us (fst top_theme)) @ '' Ads Dominate'',
       detail =
          str_nat (py_round_pct (snd top_theme) n_total) @ ''% of competitor ads use the '' @
          [CHR 0x27] @ replace_us (fst top_theme) @ [CHR 0x27] @
          '' approach. This is the default messaging strategy across the '' @
          ''competitive set.'',
       competitors_involved = [fst top_comp],
       urgency = ''medium'',
       recommended_action =
          ''Test differentiating from this pattern '' @ [CHR 0xE2, CHR 0x80, CHR 0x94] @
          '' '' @ brand_display @ '' can stand out with a contrarian approach.''\<rparr>,
      \<lparr>ins_type = ''trend'',
       title =
          fmt_opt (fst top_media) @ '' Is the Dominant Format'',
       detail =
          str_nat (py_round_pct (snd top_media) n_total) @ ''% of all ads are '' @
          fmt_opt (fst top_media) @
          ''s. This signals where competitors are investing creative budget.'',
       competitors_involved = take 3 competitor_keys,
       urgency = ''medium'',
       recommended_action =
          ''Ensure '' @ brand_display @ '' matches parity in '' @ fmt_opt (fst top_media) @
          '' production.''\<rparr>,
      \<lparr>ins_type = ''opportunity'',
       title =
          underused_fmt @ '' Ads Are an Untapped Gap'',
       detail =
          ''Competitors are underusing '' @ underused_fmt @
          '' format. This is a creative whitespace for '' @ brand_display @ '' to own.'',
       competitors_involved = [],
       urgency = ''high'',
       recommended_action =
          ''Launch 2-3 '' @ underused_fmt @
          '' ads immediately to claim this format advantage.''\<rparr>,
      \<lparr>ins_type = ''top_performer'',
       title =
          str_nat top_count @ '' Long-Running Ads Detected'',
       detail =
          str_nat top_count @ '' ads ('' @ str_nat (py_round_pct top_count n_total) @
          ''% of total) have been running 30+ days '' @ [CHR 0xE2, CHR 0x80, CHR 0x94] @
          '' these are likely top-performing creatives competitors are '' @ ''scaling.'',
       competitors_involved = [fst top_comp],
       urgency = ''high'',
       recommended_action =
          ''Reverse-engineer these long-running creatives for themes that '' @
          ''resonate with your shared audience.''\<rparr>,
      \<lparr>ins_type = ''warning'',
       title =
          fmt_opt (fst top_comp) @ '' Is Most Active'',
       detail =
          fmt_opt (fst top_comp) @ '' has the most ads in the competitive set ('' @
          str_nat (snd top_comp) @
          '' tracked). They are likely outspending others in this period.'',
       competitors_involved = [fst top_comp],
       urgency = ''high'',
       recommended_action =
          ''Monitor '' @ fmt_opt (fst top_comp) @ [CHR 0x27] @ ''s messaging closely '' @
          [CHR 0xE2, CHR 0x80, CHR 0x94] @ '' they may be testing a new campaign strategy.''\<rparr>]"

text \<open>
  \<open>_fallback_batch_analysis(ads, brand_display)\<close>. The first expression of the result
  is \<open>top_theme[0].replace(...)\<close>, which raises \<open>AttributeError\<close> when the most
  frequent theme is \<open>None\<close>; for an empty list the first percentage divides by
  \<open>total = 0\<close> and raises \<open>ZeroDivisionError\<close>.
\<close>

definition fallback_batch_analysis ::
  "(string \<Rightarrow> string) \<Rightarrow> string list \<Rightarrow> ad list \<Rightarrow> string \<Rightarrow> py_exc + batch_analysis" where
  "fallback_batch_analysis str_title format_order ads brand_display =
     (let t = foldl tally_ad empty_tally ads;
          n_total = length ads;
          top_media = top_media_of ads;
          top_comp = top_comp_of ads;
          underused_fmt = underused_of format_order (media_types t)
      in (case fst (top_theme_of ads) of
            None \<Rightarrow> Inl AttributeError
          | Some th \<Rightarrow>
              if n_total = 0 then Inl ZeroDivisionError
              else
                (let top_theme = (th, snd (top_theme_of ads)) in
                 Inr \<lparr>insights = fallback_insights str_title brand_display n_total top_theme
                                   top_media top_comp (map fst (competitors t)) underused_fmt
                                   (top_performer_count t),
                      dominant_theme = fst top_theme,
                      rising_theme = ''ugc_testimonial'',
                      underused_format = underused_fmt,
                      top_spending_competitor = fst top_comp,
                      summary_one_liner =
          fmt_opt (fst top_comp) @ '' leads activity with '' @ replace_us (fst top_theme) @
          '' messaging dominating '' @ str_nat (py_round_pct (snd top_theme) n_total) @
          ''% of creatives.''\<rparr>)))"




section \<open>Persistence layer (database.py)\<close>

text \<open>
  A value of a column or of a dictionary entry. \<open>PDateTime\<close> is a naive \<open>datetime\<close>,
  counted in microseconds since 1970-01-01 00:00:00. \<open>PNone\<close> is Python's \<open>None\<close> and
  SQL's \<open>NULL\<close>.
\<close>

datatype val = PNone | PStr string | PInt int | PBool bool | PDateTime int

text \<open>
  The columns of the mapped class \<open>AdRecord\<close> (the table \<open>ads\<close>) with their types;
  \<open>String\<close> and \<open>Text\<close> are both \<open>TString\<close>.
\<close>

datatype col_type = TString | TInteger | TBoolean | TDateTime

definition schema :: "(string \<times> col_type) list" where
  "schema =
     [(''id'', TString), (''page_name'', TString), (''page_id'', TString),
      (''brand_key'', TString), (''competitor_name'', TString),
      (''ad_body'', TString), (''ad_title'', TString), (''ad_description'', TString),
      (''media_type'', TString), (''publisher_platforms'', TString), (''languages'', TString),
      (''ad_creation_time'', TDateTime), (''ad_delivery_start_time'', TDateTime),
      (''ad_delivery_stop_time'', TDateTime),
      (''spend_lower'', TInteger), (''spend_upper'', TInteger),
      (''impressions_lower'', TInteger), (''impressions_upper'', TInteger),
      (''ad_snapshot_url'', TString),
      (''theme'', TString), (''is_active'', TBoolean), (''run_days'', TInteger),
      (''is_top_performer'', TBoolean), (''is_sample'', TBoolean),
      (''ai_theme'', TString), (''ai_sentiment'', TString), (''ai_cta_type'', TString),
      (''ai_angle'', TString),
      (''fetched_at'', TDateTime)]"

definition columns :: "string list" where
  "columns = map fst schema"

text \<open>
  A record of \<open>AdRecord\<close>, and a row of the table, gives every column its value, as the
  ORM hands it to Python; a column that was never set is \<open>PNone\<close>. (Attributes of a
  record that are not columns are no part of a row and are not represented.) The table
  is the list of its rows in insertion order; the primary key makes the \<open>id\<close>s of the
  rows distinct.
\<close>

type_synonym AdRecord = "string \<Rightarrow> val"

definition new_AdRecord :: AdRecord where
  "new_AdRecord = (\<lambda>k. PNone)"

text \<open>
  A value has the type of its column when it is null or a value of that type: what the
  ORM reads from a row.
\<close>

definition has_type :: "col_type \<Rightarrow> val \<Rightarrow> bool" where
  "has_type ty v =
     (case v of
        PNone \<Rightarrow> True
      | PStr s \<Rightarrow> ty = TString
      | PInt i \<Rightarrow> ty = TInteger
      | PBool b \<Rightarrow> ty = TBoolean
      | PDateTime t \<Rightarrow> ty = TDateTime)"

definition row_typed :: "AdRecord \<Rightarrow> bool" where
  "row_typed r = list_all (\<lambda>(k, ty). has_type ty (r k)) schema"

subsection \<open>upsert\_ad\<close>

text \<open>
  \<open>hasattr(existing, k)\<close> and \<open>hasattr(AdRecord, k)\<close> hold for the columns, and for
  every other attribute of the class, which come from the class body (\<open>__tablename__\<close>),
  from the declarative base and from Python's \<open>object\<close> (\<open>__class__\<close>). What a name that
  is not a column is, is given by the parameter \<open>py_attr\<close>: no attribute; an attribute
  that \<open>setattr\<close> stores on the instance, which leaves the row as it is; or an attribute
  whose assignment raises, as \<open>__class__\<close>, which only takes a class. \<open>python_attrs\<close>
  names the attributes that are certain.
\<close>

datatype attr_kind = NotAnAttribute | InstanceAttribute | GuardedAttribute

definition python_attrs :: "string \<Rightarrow> attr_kind" where
  "python_attrs k =
     (if k = ''__class__'' \<or> k = ''__dict__'' then GuardedAttribute
      else if k = ''__tablename__'' \<or> k = ''__table_args__'' then InstanceAttribute
      else NotAnAttribute)"

definition hasattr_AdRecord :: "(string \<Rightarrow> attr_kind) \<Rightarrow> string \<Rightarrow> bool" where
  "hasattr_AdRecord py_attr k = (k \<in> set columns \<or> py_attr k \<noteq> NotAnAttribute)"

definition setattr_AdRecord ::
  "(string \<Rightarrow> attr_kind) \<Rightarrow> AdRecord \<Rightarrow> string \<Rightarrow> val \<Rightarrow> py_exc + AdRecord" where
  "setattr_AdRecord py_attr r k v =
     (if k \<in> set columns then Inr (r(k := v))
      else (case py_attr k of
              GuardedAttribute \<Rightarrow> Inl TypeError
            | _ \<Rightarrow> Inr r))"

text \<open>
  The dictionary \<open>ad_data\<close> is the list of its items (a Python dictionary has no key
  twice). \<open>update_attrs\<close> is the loop of the update path; \<open>construct\<close> is the
  constructor of the declarative base, which assigns every keyword argument.
\<close>

fun update_attrs ::
  "(string \<Rightarrow> attr_kind) \<Rightarrow> (string \<times> val) list \<Rightarrow> AdRecord \<Rightarrow> py_exc + AdRecord" where
  "update_attrs py_attr [] r = Inr r"
| "update_attrs py_attr ((k, v) # rest) r =
     (if hasattr_AdRecord py_attr k
      then (case setattr_AdRecord py_attr r k v of
              Inl e \<Rightarrow> Inl e
            | Inr r' \<Rightarrow> update_attrs py_attr rest r')
      else update_attrs py_attr rest r)"

fun construct ::
  "(string \<Rightarrow> attr_kind) \<Rightarrow> (string \<times> val) list \<Rightarrow> AdRecord \<Rightarrow> py_exc + AdRecord" where
  "construct py_attr [] r = Inr r"
| "construct py_attr ((k, v) # rest) r =
     (case setattr_AdRecord py_attr r k v of
        Inl e \<Rightarrow> Inl e
      | Inr r' \<Rightarrow> construct py_attr rest r')"

text \<open>
  \<open>db.commit()\<close> writes the record. The types of SQLAlchemy bind the values: a
  \<open>DateTime\<close> column takes a datetime or null and a \<open>Boolean\<close> column takes a flag, 0, 1
  or null; any other value raises (\<open>StatementError\<close>). The other columns take what they
  are given. (SQLite may convert a value to the affinity of its column, a number in a
  \<open>String\<close> column to its text: this is not modelled, the value is stored as given.)
  When a row is inserted, a column that is null gets the default of its column, if it
  has one; \<open>fetched_at\<close> defaults to the current UTC time.
\<close>

definition bind_value :: "col_type \<Rightarrow> val \<Rightarrow> val option" where
  "bind_value ty v =
     (case ty of
        TDateTime \<Rightarrow> (case v of PNone \<Rightarrow> Some v | PDateTime t \<Rightarrow> Some v | _ \<Rightarrow> None)
      | TBoolean \<Rightarrow>
          (case v of
             PNone \<Rightarrow> Some v
           | PBool b \<Rightarrow> Some v
           | PInt i \<Rightarrow> if i = 0 then Some (PBool False)
                       else if i = 1 then Some (PBool True) else None
           | _ \<Rightarrow> None)
      | _ \<Rightarrow> Some v)"

definition commit_row :: "AdRecord \<Rightarrow> py_exc + AdRecord" where
  "commit_row r =
     (if list_all (\<lambda>(k, ty). bind_value ty (r k) \<noteq> None) schema
      then Inr (\<lambda>k. case map_of schema k of
                       None \<Rightarrow> r k
                     | Some ty \<Rightarrow> the (bind_value ty (r k)))
      else Inl StatementError)"

definition column_default :: "int \<Rightarrow> string \<Rightarrow> val" where
  "column_default utcnow k =
     (if k = ''is_active'' then PBool True
      else if k = ''run_days'' then PInt 0
      else if k = ''is_top_performer'' then PBool False
      else if k = ''is_sample'' then PBool False
      else if k = ''fetched_at'' then PDateTime utcnow
      else PNone)"

definition with_defaults :: "int \<Rightarrow> AdRecord \<Rightarrow> AdRecord" where
  "with_defaults utcnow r = (\<lambda>k. if r k = PNone then column_default utcnow k else r k)"

text \<open>
  \<open>db.query(AdRecord).filter_by(id=i).first()\<close>: the position of the first row with
  that id.
\<close>

fun index_of_id :: "val \<Rightarrow> AdRecord list \<Rightarrow> nat option" where
  "index_of_id i [] = None"
| "index_of_id i (r # rs) =
     (if r ''id'' = i then Some 0
      else (case index_of_id i rs of None \<Rightarrow> None | Some n \<Rightarrow> Some (Suc n)))"

text \<open>
  \<open>upsert_ad(db, ad_data)\<close> returns the new table and the record, as it is after the
  commit. \<open>ad_data["id"]\<close> raises \<open>KeyError\<close> when the key is missing; a new row
  without an id violates the primary key.
\<close>

definition upsert_ad ::
  "(string \<Rightarrow> attr_kind) \<Rightarrow> int \<Rightarrow> AdRecord list \<Rightarrow> (string \<times> val) list \<Rightarrow>
   py_exc + (AdRecord list \<times> AdRecord)" where
  "upsert_ad py_attr utcnow db ad_data =
     (case map_of ad_data ''id'' of
        None \<Rightarrow> Inl (KeyError ''id'')
      | Some i \<Rightarrow>
          (case index_of_id i db of
             Some n \<Rightarrow>
               (case update_attrs py_attr ad_data (db ! n) of
                  Inl e \<Rightarrow> Inl e
                | Inr existing \<Rightarrow>
                    (case commit_row existing of
                       Inl e \<Rightarrow> Inl e
                     | Inr stored \<Rightarrow> Inr (db[n := stored], stored)))
           | None \<Rightarrow>
               (case construct py_attr
                       (filter (\<lambda>item. hasattr_AdRecord py_attr (fst item)) ad_data)
                       new_AdRecord of
                  Inl e \<Rightarrow> Inl e
                | Inr record \<Rightarrow>
                    (case commit_row (with_defaults utcnow record) of
                       Inl e \<Rightarrow> Inl e
                     | Inr stored \<Rightarrow>
                         if stored ''id'' = PNone then Inl IntegrityError
                         else Inr (db @ [stored], stored)))))"

text \<open>
  The conditions of the theorem on a dictionary: its keys are distinct, the values
  under column names have the types of their columns, and no other key names an
  attribute whose assignment raises.
\<close>

definition well_typed :: "(string \<times> val) list \<Rightarrow> bool" where
  "well_typed d =
     list_all (\<lambda>(k, v). case map_of schema k of None \<Rightarrow> True | Some ty \<Rightarrow> has_type ty v) d"

definition no_guarded_key :: "(string \<Rightarrow> attr_kind) \<Rightarrow> (string \<times> val) list \<Rightarrow> bool" where
  "no_guarded_key py_attr d =
     list_all (\<lambda>(k, v). k \<in> set columns \<or> py_attr k \<noteq> GuardedAttribute) d"

text \<open>The assignment of one dictionary item to a row, when it is a column.\<close>

definition set_known :: "string \<times> val \<Rightarrow> AdRecord \<Rightarrow> AdRecord" where
  "set_known item r = (if fst item \<in> set columns then r(fst item := snd item) else r)"

subsection \<open>get\_ads\<close>

text \<open>
  A comparison \<open>AdRecord.c == v\<close> of a query: SQL equality, which no \<open>NULL\<close> satisfies.
\<close>

definition col_eq :: "string \<Rightarrow> val \<Rightarrow> AdRecord \<Rightarrow> bool" where
  "col_eq c v r = (v \<noteq> PNone \<and> r c = v)"

definition start_time :: "AdRecord \<Rightarrow> int option" where
  "start_time r = (case r ''ad_delivery_start_time'' of PDateTime t \<Rightarrow> Some t | _ \<Rightarrow> None)"

text \<open>
  The cutoff of the \<open>days_back\<close> filter is
  \<open>datetime.utcfromtimestamp(datetime.utcnow().timestamp() - days_back * 86400)\<close>.
  \<open>utcnow()\<close> is a naive datetime that holds the current UTC time. \<open>timestamp()\<close> of a
  naive datetime reads it as local time: with the local zone \<open>utc_offset\<close> seconds east
  of UTC, the POSIX time of the naive value is its seconds minus the offset, and the
  float returned is that number of seconds plus the microseconds divided by \<open>1e6\<close>.
  \<open>utcfromtimestamp\<close> splits a float into its integral part and its fraction, rounds the
  fraction times \<open>1e6\<close> to microseconds, and raises when the result lies outside the
  years 1 to 9999. The current time and the offset of the local zone are inputs of the
  model.
\<close>

definition timestamp :: "int \<Rightarrow> int \<Rightarrow> rat" where
  "timestamp utc_offset t =
     fl (of_int (t div 1000000 - utc_offset) + fl (of_int (t mod 1000000) / 1000000))"

definition min_datetime :: int where
  "min_datetime = - 62135596800 * 1000000"

definition max_datetime :: int where
  "max_datetime = 253402300799 * 1000000 + 999999"

definition utcfromtimestamp :: "rat \<Rightarrow> py_exc + int" where
  "utcfromtimestamp x =
     (let whole = (if 0 \<le> x then \<lfloor>x\<rfloor> else \<lceil>x\<rceil>);
          us = round_half_even (fl ((x - of_int whole) * 1000000));
          t = whole * 1000000 + us
      in if t < min_datetime \<or> max_datetime < t then Inl ValueError else Inr t)"

definition days_back_cutoff :: "int \<Rightarrow> int \<Rightarrow> int \<Rightarrow> py_exc + int" where
  "days_back_cutoff utcnow utc_offset days_back =
     utcfromtimestamp (fl (timestamp utc_offset utcnow - fl (of_int (days_back * 86400))))"

text \<open>
  \<open>order_by(AdRecord.ad_delivery_start_time.desc())\<close>: SQLite sorts \<open>NULL\<close> below every
  value, so in descending order the rows without a start time come last. \<open>limit(n)\<close>
  keeps the first \<open>n\<close> rows; SQLite reads a negative limit as no limit.
\<close>

definition order_by_start_desc :: "AdRecord list \<Rightarrow> AdRecord list" where
  "order_by_start_desc q = rev (sort_key start_time q)"

definition sql_limit :: "int \<Rightarrow> 'a list \<Rightarrow> 'a list" where
  "sql_limit n q = (if n < 0 then q else take (nat n) q)"

definition filter_str :: "string \<Rightarrow> string option \<Rightarrow> AdRecord list \<Rightarrow> AdRecord list" where
  "filter_str c arg q =
     (case arg of
        None \<Rightarrow> q
      | Some s \<Rightarrow> if s \<noteq> [] then filter (col_eq c (PStr s)) q else q)"

definition filter_days_back ::
  "int \<Rightarrow> int \<Rightarrow> int option \<Rightarrow> AdRecord list \<Rightarrow> py_exc + AdRecord list" where
  "filter_days_back utcnow utc_offset days_back q =
     (case days_back of
        None \<Rightarrow> Inr q
      | Some d \<Rightarrow>
          if d \<noteq> 0
          then (case days_back_cutoff utcnow utc_offset d of
                  Inl e \<Rightarrow> Inl e
                | Inr cutoff \<Rightarrow>
                    Inr (filter (\<lambda>r. case start_time r of
                                       None \<Rightarrow> False
                                     | Some t \<Rightarrow> cutoff \<le> t) q))
          else Inr q)"

definition get_ads ::
  "int \<Rightarrow> int \<Rightarrow> AdRecord list \<Rightarrow> string option \<Rightarrow> string option \<Rightarrow> string option \<Rightarrow>
   string option \<Rightarrow> bool option \<Rightarrow> int option \<Rightarrow> int \<Rightarrow> py_exc + AdRecord list" where
  "get_ads utcnow utc_offset db brand_key competitor_name media_type theme is_active days_back
     limit =
     (let q = db;
          q = filter_str ''brand_key'' brand_key q;
          q = filter_str ''competitor_name'' competitor_name q;
          q = filter_str ''media_type'' media_type q;
          q = filter_str ''theme'' theme q;
          q = (case is_active of
                 None \<Rightarrow> q
               | Some a \<Rightarrow> filter (col_eq ''is_active'' (PBool a)) q)
      in (case filter_days_back utcnow utc_offset days_back q of
            Inl e \<Rightarrow> Inl e
          | Inr q \<Rightarrow> Inr (sql_limit limit (order_by_start_desc q))))"

subsection \<open>get\_stats\<close>

text \<open>
  The truth value of a Python value, and \<open>query(column, count).group_by(column)\<close>: one
  pair for every value that the column takes, \<open>NULL\<close> included, with the number of rows
  that have it.
\<close>

definition truthy :: "val \<Rightarrow> bool" where
  "truthy v = (case v of
                 PNone \<Rightarrow> False
               | PStr s \<Rightarrow> s \<noteq> []
               | PInt i \<Rightarrow> i \<noteq> 0
               | PBool b \<Rightarrow> b
               | PDateTime t \<Rightarrow> True)"

definition group_count :: "string \<Rightarrow> AdRecord list \<Rightarrow> (val \<times> nat) list" where
  "group_count c q =
     map (\<lambda>v. (v, length (filter (\<lambda>r. r c = v) q))) (remdups (map (\<lambda>r. r c) q))"

record stats =
  total_ads :: nat
  active_ads :: nat
  top_performers :: nat
  media_breakdown :: "(string \<times> nat) list"
  theme_breakdown :: "(val \<times> nat) list"
  competitor_breakdown :: "(val \<times> nat) list"

definition get_stats :: "AdRecord list \<Rightarrow> string option \<Rightarrow> stats" where
  "get_stats db brand_key =
     (let q = filter_str ''brand_key'' brand_key db in
      \<lparr>total_ads = length q,
       active_ads = length (filter (col_eq ''is_active'' (PBool True)) q),
       top_performers = length (filter (col_eq ''is_top_performer'' (PBool True)) q),
       media_breakdown =
         map (\<lambda>mt. (mt, length (filter (col_eq ''media_type'' (PStr mt)) q)))
           [''IMAGE'', ''VIDEO'', ''CAROUSEL''],
       theme_breakdown =
         filter (\<lambda>row. truthy (fst row))
           (group_count ''theme'' (filter_str ''brand_key'' brand_key db)),
       competitor_breakdown =
         filter (\<lambda>row. truthy (fst row))
           (group_count ''competitor_name'' (filter_str ''brand_key'' brand_key db))\<rparr>)"

text \<open>Example dictionaries and rows for the persistence layer.\<close>

definition row_of :: "(string \<times> val) list \<Rightarrow> AdRecord" where
  "row_of items = fold set_known items new_AdRecord"

definition first_fetch :: "(string \<times> val) list" where
  "first_fetch =
     [(''id'', PStr ''ad_1''), (''ad_body'', PStr ''Old copy''),
      (''media_type'', PStr ''IMAGE''), (''_theme'', PStr ''offer_promo'')]"

definition second_fetch :: "(string \<times> val) list" where
  "second_fetch =
     [(''id'', PStr ''ad_1''), (''ad_body'', PStr ''New copy''),
      (''ad_creative_bodies'', PStr ''New copy'')]"

definition class_fetch :: "(string \<times> val) list" where
  "class_fetch =
     [(''id'', PStr ''ad_1''), (''ad_body'', PStr ''Old copy''), (''__class__'', PStr ''Ad'')]"

definition query_time :: int where
  "query_time = 1700000000 * 1000000"

definition old_ad :: AdRecord where
  "old_ad = row_of
     [(''id'', PStr ''ad_old''), (''is_active'', PBool False),
      (''ad_delivery_start_time'',
       PDateTime (query_time - 30 * 86400 * 1000000 - 3600 * 1000000))]"

definition recent_ad :: AdRecord where
  "recent_ad = row_of
     [(''id'', PStr ''ad_new''), (''is_active'', PBool True), (''media_type'', PStr ''VIDEO''),
      (''theme'', PStr ''offer_promo''), (''competitor_name'', PStr ''Pilgrim''),
      (''is_top_performer'', PBool True),
      (''ad_delivery_start_time'', PDateTime (query_time - 86400 * 1000000))]"

section \<open>Ad Library client (meta\_api.py)\<close>

text \<open>
  What a method of \<open>MetaAdLibraryClient\<close> does to the outside world is the list of its
  events: a \<open>time.sleep\<close> (in milliseconds) and a \<open>session.get\<close> with its endpoint, its
  parameters and its timeout in seconds. The constructor sets \<open>rate_limit_sleep\<close> to
  1.0 seconds.
\<close>

datatype event = Sleep nat | HttpGet string "(string \<times> string) list" nat

definition rate_limit_sleep :: nat where
  "rate_limit_sleep = 1000"

text \<open>
  The outcome of \<open>session.get\<close> is an input of the model: the call raises a
  \<open>RequestException\<close> (no connection, timeout), or it returns a response with a status
  code and a body, which is JSON (\<open>Some\<close>) or not (\<open>None\<close>). \<open>raise_for_status\<close>
  raises \<open>HTTPError\<close>, a \<open>RequestException\<close>, for the status codes 400 to 599.
  \<open>resp.json()\<close> of a body that is not JSON raises the \<open>JSONDecodeError\<close> of the
  requests library, which is a \<open>RequestException\<close> too. The text \<open>str(e)\<close> of these
  exceptions is made by the library: it is the parameter \<open>describe\<close>.
\<close>

datatype request_failure = TransportError string | HTTPError nat | InvalidJSON

datatype http_reply = GetRaises string | Response nat "json option"

text \<open>
  \<open>needle in v\<close> and \<open>v[key]\<close> for a string and a parsed JSON value \<open>v\<close>: an object is
  a dictionary, an array is a list, a string is searched for the substring; \<open>None\<close>, a
  truth value and a number raise \<open>TypeError\<close>, and so does a list or a string indexed by
  a string.
\<close>

definition py_in :: "string \<Rightarrow> json \<Rightarrow> py_exc + bool" where
  "py_in needle v =
     (case v of
        JObj members \<Rightarrow> Inr (needle \<in> set (map fst members))
      | JArr items \<Rightarrow> Inr (JStr needle \<in> set items)
      | JStr s \<Rightarrow> Inr (contains needle s)
      | _ \<Rightarrow> Inl TypeError)"

definition py_getitem :: "json \<Rightarrow> string \<Rightarrow> py_exc + json" where
  "py_getitem v key =
     (case v of
        JObj members \<Rightarrow>
          (case map_of members key of None \<Rightarrow> Inl (KeyError key) | Some x \<Rightarrow> Inr x)
      | _ \<Rightarrow> Inl TypeError)"

subsection \<open>search\_ads\<close>

definition truthy_opt :: "string option \<Rightarrow> bool" where
  "truthy_opt s = (case s of None \<Rightarrow> False | Some x \<Rightarrow> x \<noteq> [])"

definition ads_archive_fields :: "string list" where
  "ads_archive_fields =
     [''id'', ''ad_creation_time'', ''ad_delivery_start_time'', ''ad_delivery_stop_time'',
      ''ad_creative_bodies'', ''ad_creative_link_captions'',
      ''ad_creative_link_descriptions'', ''ad_creative_link_titles'',
      ''page_id'', ''page_name'', ''spend'', ''impressions'',
      ''demographic_distribution'', ''region_distribution'', ''ad_snapshot_url'',
      ''languages'', ''publisher_platforms'']"

text \<open>
  The request parameters of \<open>search_ads\<close>. \<open>json.dumps(page_ids)\<close> is library code:
  the parameter \<open>json_dumps\<close>; the page ids are strings.
\<close>

definition search_params ::
  "(string list \<Rightarrow> string) \<Rightarrow> string \<Rightarrow> string list option \<Rightarrow> string \<Rightarrow> string \<Rightarrow> string \<Rightarrow>
   string option \<Rightarrow> string option \<Rightarrow> int \<Rightarrow> string option \<Rightarrow> (string \<times> string) list" where
  "search_params json_dumps search_terms page_ids country ad_active_status media_type
     ad_delivery_date_min ad_delivery_date_max limit after_cursor =
     [(''search_type'', if search_terms \<noteq> [] then ''KEYWORD_EXACT_PHRASE'' else ''PAGE''),
      (''ad_reached_countries'', ''['' @ [CHR 0x22] @ country @ [CHR 0x22] @ '']''),
      (''ad_active_status'', ad_active_status),
      (''media_type'', media_type),
      (''limit'', str_int limit),
      (''fields'', join '','' ads_archive_fields)]
     @ (if search_terms \<noteq> [] then [(''search_terms'', search_terms)] else [])
     @ (case page_ids of
          None \<Rightarrow> []
        | Some ids \<Rightarrow> if ids \<noteq> [] then [(''search_page_ids'', json_dumps ids)] else [])
     @ (if truthy_opt ad_delivery_date_min
        then [(''ad_delivery_date_min'', the ad_delivery_date_min)] else [])
     @ (if truthy_opt ad_delivery_date_max
        then [(''ad_delivery_date_max'', the ad_delivery_date_max)] else [])
     @ (if truthy_opt after_cursor then [(''after'', the after_cursor)] else [])"

definition error_result :: "json \<Rightarrow> json" where
  "error_result e = JObj [(''data'', JArr []), (''paging'', JObj []), (''error'', e)]"

text \<open>
  \<open>search_ads\<close> returns its result or the exception it raises to its caller, and its
  events. Only a \<open>RequestException\<close> is caught.
\<close>

definition search_ads ::
  "(request_failure \<Rightarrow> string) \<Rightarrow> (string list \<Rightarrow> string) \<Rightarrow> http_reply \<Rightarrow>
   string \<Rightarrow> string list option \<Rightarrow> string \<Rightarrow> string \<Rightarrow> string \<Rightarrow>
   string option \<Rightarrow> string option \<Rightarrow> int \<Rightarrow> string option \<Rightarrow> (py_exc + json) \<times> event list" where
  "search_ads describe json_dumps reply search_terms page_ids country ad_active_status
     media_type ad_delivery_date_min ad_delivery_date_max limit after_cursor =
     (let params = search_params json_dumps search_terms page_ids country ad_active_status
                     media_type ad_delivery_date_min ad_delivery_date_max limit after_cursor;
          events = [Sleep rate_limit_sleep, HttpGet ''/ads_archive'' params 30]
      in (case reply of
            GetRaises text \<Rightarrow>
              (Inr (error_result (JStr (describe (TransportError text)))), events)
          | Response status body \<Rightarrow>
              if 400 \<le> status \<and> status < 600
              then (Inr (error_result (JStr (describe (HTTPError status)))), events)
              else (case body of
                      None \<Rightarrow> (Inr (error_result (JStr (describe InvalidJSON))), events)
                    | Some result \<Rightarrow>
                        (case py_in ''error'' result of
                           Inl e \<Rightarrow> (Inl e, events)
                         | Inr True \<Rightarrow>
                             (case py_getitem result ''error'' of
                                Inl e \<Rightarrow> (Inl e, events)
                              | Inr err \<Rightarrow> (Inr (error_result err), events))
                         | Inr False \<Rightarrow> (Inr result, events)))))"

subsection \<open>get\_page\_id and validate\_token\<close>

text \<open>
  \<open>get_page_id\<close> returns \<open>data["data"][0]["id"]\<close> when the response is an object whose
  member \<open>data\<close> is a non-empty list that begins with an object with a member \<open>id\<close>.
  Everything else ends in \<open>return None\<close>: a falsy \<open>data.get("data")\<close>, or an exception,
  which \<open>except Exception\<close> catches.
\<close>

definition get_page_id :: "http_reply \<Rightarrow> string \<Rightarrow> json option \<times> event list" where
  "get_page_id reply page_name =
     (let events = [Sleep rate_limit_sleep,
                    HttpGet ''/pages/search''
                      [(''q'', page_name), (''fields'', ''id,name,verification_status'')] 20]
      in (case reply of
            GetRaises text \<Rightarrow> (None, events)
          | Response status body \<Rightarrow>
              if 400 \<le> status \<and> status < 600 then (None, events)
              else (case body of
                      Some (JObj members) \<Rightarrow>
                        (case map_of members ''data'' of
                           Some (JArr (JObj first # rest)) \<Rightarrow>
                             (case map_of first ''id'' of
                                Some JNull \<Rightarrow> (None, events)
                              | found \<Rightarrow> (found, events))
                         | _ \<Rightarrow> (None, events))
                    | _ \<Rightarrow> (None, events))))"

text \<open>
  \<open>validate_token\<close> issues its request at once: there is no \<open>time.sleep\<close> in it, and
  no \<open>raise_for_status\<close>. Every exception gives \<open>False\<close>.
\<close>

definition validate_token :: "http_reply \<Rightarrow> bool \<times> event list" where
  "validate_token reply =
     (let events = [HttpGet ''/me'' [(''fields'', ''id,name'')] 10]
      in (case reply of
            GetRaises text \<Rightarrow> (False, events)
          | Response status body \<Rightarrow>
              (case body of
                 None \<Rightarrow> (False, events)
               | Some data \<Rightarrow>
                   (case py_in ''id'' data of
                      Inl e \<Rightarrow> (False, events)
                    | Inr found \<Rightarrow> (found, events)))))"

text \<open>
  \<open>delayed events\<close>: every request of the list comes directly after a sleep of
  \<open>rate_limit_sleep\<close>.
\<close>

fun delayed :: "event list \<Rightarrow> bool" where
  "delayed [] = True"
| "delayed (Sleep ms # HttpGet path params timeout # rest) =
     (ms = rate_limit_sleep \<and> delayed rest)"
| "delayed (Sleep ms # rest) = delayed rest"
| "delayed (HttpGet path params timeout # rest) = False"

text \<open>The replies for which \<open>search_ads\<close> is shown to return: the call fails, or the
  body is not JSON, or the body is a JSON object.\<close>

definition object_reply :: "http_reply \<Rightarrow> bool" where
  "object_reply reply =
     (case reply of
        GetRaises text \<Rightarrow> True
      | Response status body \<Rightarrow>
          (case body of None \<Rightarrow> True | Some (JObj members) \<Rightarrow> True | Some _ \<Rightarrow> False))"

text \<open>Stand-ins for the two library functions, used in examples.\<close>

definition describe_plain :: "request_failure \<Rightarrow> string" where
  "describe_plain f =
     (case f of
        TransportError text \<Rightarrow> text
      | HTTPError status \<Rightarrow> str_nat status @ '' Error''
      | InvalidJSON \<Rightarrow> ''Expecting value'')"

definition dumps_plain :: "string list \<Rightarrow> string" where
  "dumps_plain ids =
     ''['' @ join '', '' (map (\<lambda>s. [CHR 0x22] @ s @ [CHR 0x22]) ids) @ '']''"

section \<open>Sample data generator (sample\_data.py)\<close>

text \<open>
  The tables of the module. A template has a theme, bodies and titles; \<open>AD_TEMPLATES\<close>
  has one list of templates for every brand.
\<close>

record template =
  t_theme :: string
  bodies :: "string list"
  titles :: "string list"

definition bebodywise_competitors :: "template list" where
  "bebodywise_competitors =
     [\<lparr>t_theme = ''ugc_testimonial'',
       bodies =
         [''I tried {product} for 3 months and honestly? My skin '' @
            ''transformed '' @ [CHR 0xF0, CHR 0x9F, CHR 0x8C, CHR 0x9F] @
            '' No filters needed anymore! #RealResults'',
          ''From acne-prone to glass skin in 60 days '' @
            [CHR 0xF0, CHR 0x9F, CHR 0x98, CHR 0x8D] @
            '' {product} changed everything. Link in bio!'',
          ''My mom asked me what I changed in my routine '' @
            [CHR 0xE2, CHR 0x80, CHR 0x94] @ '' I said {product} and nothing else '' @
            [CHR 0xF0, CHR 0x9F, CHR 0x92, CHR 0x95]],
       titles =
         [''{brand}: Real Women, Real Results'',
          ''Science-Backed Skincare That Actually Works'']\<rparr>,
      \<lparr>t_theme = ''doctor_authority'',
       bodies =
         [''Recommended by 10,000+ dermatologists across India. {product} '' @
            [CHR 0xE2, CHR 0x80, CHR 0x94] @ '' because your skin deserves science.'',
          ''Dermatologist formulated. Clinically tested. {brand} '' @
            [CHR 0xE2, CHR 0x80, CHR 0x94] @ '' skincare you can trust.'',
          ''Dr. Priya Sharma: '' @ [CHR 0x27] @
            ''This is the only serum I recommend to all my patients for '' @
            ''hyperpigmentation.'' @ [CHR 0x27]],
       titles =
         [''Clinically Proven Results'',
          ''Trusted by India'' @ [CHR 0x27] @ ''s Top Dermatologists'']\<rparr>,
      \<lparr>t_theme = ''offer_promo'',
       bodies =
         [[CHR 0xF0, CHR 0x9F, CHR 0x94, CHR 0xA5] @
            '' FLAT 30% OFF on your first order! Use code GLOW30. Limited '' @
            ''time only.'',
          ''Buy 2, Get 1 FREE on all {brand} bestsellers. Shop now before it'' @
            [CHR 0x27] @ ''s gone!'',
          [CHR 0xE2, CHR 0x82, CHR 0xB9] @ ''499 starter kit '' @
            [CHR 0xE2, CHR 0x80, CHR 0x94] @
            '' includes our top 3 sellers. Free shipping. 30-day return '' @
            ''guarantee.''],
       titles =
         [''Limited Time Offer'',
          ''Today Only: 30% Off Sitewide'']\<rparr>,
      \<lparr>t_theme = ''ingredient_science'',
       bodies =
         [''Niacinamide 10% + Zinc 1% '' @ [CHR 0xE2, CHR 0x80, CHR 0x94] @
            '' the gold standard combo for oily, acne-prone skin. Now in '' @ ''India.'',
          ''2% Salicylic Acid. No SLS. No Parabens. Just science that '' @
            ''works. That'' @ [CHR 0x27] @ ''s {brand}.'',
          ''Our Vitamin C serum has 15% L-Ascorbic Acid '' @
            [CHR 0xE2, CHR 0x80, CHR 0x94] @ '' 3x more potent than the leading brand.''],
       titles =
         [''The Science of Beautiful Skin'',
          ''Ingredient Transparency Starts Here'']\<rparr>,
      \<lparr>t_theme = ''community_story'',
       bodies =
         [''1 million+ women in India have made the switch. Join the '' @
            ''{brand} revolution '' @ [CHR 0xF0, CHR 0x9F, CHR 0x92, CHR 0xAA],
          ''Our community of glowing women is growing every day. What'' @ [CHR 0x27] @
            ''s their secret? {product} '' @ [CHR 0xF0, CHR 0x9F, CHR 0x8C, CHR 0xB8],
          ''From Bengaluru to Bhopal '' @ [CHR 0xE2, CHR 0x80, CHR 0x94] @
            '' women everywhere are choosing {brand}. Here'' @ [CHR 0x27] @ ''s why.''],
       titles =
         [''Join 1M+ Women'',
          ''India'' @ [CHR 0x27] @ ''s Most-Loved Skincare Brand'']\<rparr>]"

definition manmatters_competitors :: "template list" where
  "manmatters_competitors =
     [\<lparr>t_theme = ''ugc_testimonial'',
       bodies =
         [''I was losing 200+ strands a day. After 6 months on {product}, '' @
            ''my barber noticed the difference '' @
            [CHR 0xF0, CHR 0x9F, CHR 0x92, CHR 0xAA] @ '' #HairGrowth'',
          ''Honest review: {brand} actually worked for my hair fall. I was '' @
            ''skeptical but the results speak for themselves.'',
          ''My confidence is back. {product} changed my hair and honestly '' @
            ''my entire morning routine.''],
       titles =
         [''{brand}: Real Men, Real Results'',
          ''Hair Loss Fixed? Here'' @ [CHR 0x27] @ ''s How.'']\<rparr>,
      \<lparr>t_theme = ''doctor_authority'',
       bodies =
         [''Board-certified dermatologists + a custom formula = {product}. '' @
            ''Because hair fall deserves real treatment.'',
          ''Dr. Rahul Verma explains why {brand}'' @ [CHR 0x27] @
            ''s 3-step system outperforms everything else on the market.'',
          ''Science says: DHT is the #1 cause of male pattern baldness. '' @
            ''{brand} blocks it at the root.''],
       titles =
         [''Doctor-Backed Hair Solutions'',
          ''Science of Hair Regrowth'']\<rparr>,
      \<lparr>t_theme = ''offer_promo'',
       bodies =
         [[CHR 0xF0, CHR 0x9F, CHR 0x94, CHR 0xA5] @
            '' Hair Kit + Free Consultation '' @ [CHR 0xE2, CHR 0x80, CHR 0x94] @
            '' just '' @ [CHR 0xE2, CHR 0x82, CHR 0xB9] @
            ''999. 10,000 men already took this step.'',
          ''Festive Sale: 40% off our complete grooming range. Use GROOM40.'',
          ''First order? Get '' @ [CHR 0xE2, CHR 0x82, CHR 0xB9] @
            ''500 off + FREE doctor consultation. Limited slots.''],
       titles =
         [''Flat 40% Off '' @ [CHR 0xE2, CHR 0x80, CHR 0x94] @ '' Today Only'',
          ''Start Your Hair Regrowth Journey'']\<rparr>,
      \<lparr>t_theme = ''before_after'',
       bodies =
         [''Arjun'' @ [CHR 0x27] @ ''s before/after at 90 days '' @
            [CHR 0xF0, CHR 0x9F, CHR 0x93, CHR 0xB8] @
            '' This is what consistency with {product} looks like.'',
          ''3 months. 90 photos. 1 incredible result. {brand} hair regrowth '' @
            ''kit '' @ [CHR 0xE2, CHR 0x80, CHR 0x94] @ '' results that show.'',
          ''Watch the transformation '' @ [CHR 0xF0, CHR 0x9F, CHR 0x91, CHR 0x87] @
            '' From thinning to thick '' @ [CHR 0xE2, CHR 0x80, CHR 0x94] @
            '' this is {product} working.''],
       titles =
         [''90 Days. Real Results.'',
          ''Before vs After: Judge for Yourself'']\<rparr>,
      \<lparr>t_theme = ''community_story'',
       bodies =
         [''500,000 men trust {brand} for their daily grooming. You should '' @
            ''too.'',
          ''India'' @ [CHR 0x27] @ ''s leading men'' @ [CHR 0x27] @
            ''s wellness platform '' @ [CHR 0xE2, CHR 0x80, CHR 0x94] @
            '' built by men, for men. That'' @ [CHR 0x27] @ ''s {brand}.'',
          ''When 1 in 3 Indian men has hair loss, someone had to build a '' @
            ''real solution. That'' @ [CHR 0x27] @ ''s us.''],
       titles =
         [''5L+ Men Trust Us'',
          ''India'' @ [CHR 0x27] @ ''s #1 Men'' @ [CHR 0x27] @ ''s Wellness Brand'']\<rparr>]"

definition littlejoys_competitors :: "template list" where
  "littlejoys_competitors =
     [\<lparr>t_theme = ''parent_reassurance'',
       bodies =
         [''As a mom, I only give my kids the safest. {product} '' @
            [CHR 0xE2, CHR 0x80, CHR 0x94] @
            '' zero sugar, all nutrients, zero compromise.'',
          ''Priya'' @ [CHR 0x27] @
            ''s son went from picky eater to finishing his plate '' @
            [CHR 0xF0, CHR 0x9F, CHR 0x98, CHR 0x8A] @ '' The secret? {product} daily.'',
          ''3 kids, 1 solution. {brand} kids'' @ [CHR 0x27] @ '' nutrition '' @
            [CHR 0xE2, CHR 0x80, CHR 0x94] @
            '' because every child deserves the best start.''],
       titles =
         [''{brand}: Trusted by 1M+ Indian Moms'',
          ''Nutrition Without Compromise'']\<rparr>,
      \<lparr>t_theme = ''pediatrician_authority'',
       bodies =
         [''Recommended by pediatricians across India. {product} '' @
            [CHR 0xE2, CHR 0x80, CHR 0x94] @ '' clinically proven for growing kids.'',
          ''Dr. Anjali Mehta, Pediatrician: '' @ [CHR 0x27] @
            ''{brand} is what I give my own children every morning.'' @ [CHR 0x27],
          ''Formulated with ICMR guidelines for Indian children'' @ [CHR 0x27] @
            ''s nutritional needs. {brand}.''],
       titles =
         [''Pediatrician Recommended'',
          ''Built on Child Nutrition Science'']\<rparr>,
      \<lparr>t_theme = ''offer_promo'',
       bodies =
         [''Back to school special: 25% off on {brand} nutrition packs. '' @
            ''Free shipping above '' @ [CHR 0xE2, CHR 0x82, CHR 0xB9] @ ''500!'',
          ''Subscribe & Save: Get {product} every month + save '' @
            [CHR 0xE2, CHR 0x82, CHR 0xB9] @ ''200 + free nutritionist consult.'',
          ''Summer pack: 3 months of {product} at 30% off. Keep your kids '' @
            ''healthy all season.''],
       titles =
         [''Back to School Sale!'',
          ''Subscribe & Save 25%'']\<rparr>,
      \<lparr>t_theme = ''ingredient_science'',
       bodies =
         [''DHA for brain. Calcium for bones. Iron for energy. All in one '' @
            ''{product} serving for your child.'',
          ''No artificial colors. No preservatives. No palm oil. Just clean '' @
            ''nutrition your kids will actually eat.'',
          ''Indian kids need 40% more iron than WHO guidelines. {brand} is '' @
            ''built for Indian children.''],
       titles =
         [''Science-Backed Kids Nutrition'',
          ''Clean Label. Real Nutrition.'']\<rparr>,
      \<lparr>t_theme = ''ugc_testimonial'',
       bodies =
         [''My 7-year-old asks for {product} every morning now '' @
            [CHR 0xF0, CHR 0x9F, CHR 0x99, CHR 0x8C] @ '' That'' @ [CHR 0x27] @
            ''s how I know it works. Thank you {brand}!'',
          ''From skinny to strong in 4 months '' @ [CHR 0xE2, CHR 0x80, CHR 0x94] @
            '' {product} + regular meals changed everything for my son.'',
          ''Rahul'' @ [CHR 0x27] @ ''s pediatrician was shocked at his growth. We'' @
            [CHR 0x27] @ ''ve been on {brand} for 6 months.''],
       titles =
         [''Real Kids. Real Growth.'',
          ''Parents Are Raving About This'']\<rparr>]"

definition product_table :: "(string \<times> string list) list" where
  "product_table =
     [(''Pilgrim'',
       [''Vitamin C Serum'',
        ''SPF 50 Sunscreen'',
        ''AHA BHA Peel'']),
      (''Mamaearth'',
       [''Onion Hair Oil'',
        ''Ubtan Face Pack'',
        ''Vitamin C Face Wash'']),
      (''Dot & Key'',
       [''Waterlight Gel Moisturizer'',
        ''Vitamin C + E Serum'',
        ''Retinol Night Cream'']),
      (''Plum Goodness'',
       [''Green Tea Mattifying Moisturizer'',
        ''E-Luminence Face Wash'',
        ''Grape Seed & Sea Buckthorn Oil'']),
      (''Minimalist'',
       [''10% Niacinamide + Zinc'',
        ''2% Salicylic Acid'',
        ''Alpha Arbutin 2%'']),
      (''WOW Skin Science'',
       [''Apple Cider Vinegar Shampoo'',
        ''Vitamin C Face Serum'',
        ''Onion Black Seed Hair Oil'']),
      (''mCaffeine'',
       [''Coffee Body Scrub'',
        ''Caffeine Under Eye Cream'',
        ''Coffee Face Wash'']),
      (''OZiva'',
       [''Protein & Herbs Women'',
        ''Plant-Based Biotin'',
        ''Holistic Nutrition Shake'']),
      (''The Man Company'',
       [''Beard Growth Kit'',
        ''Anti-Acne Face Wash'',
        ''Daily Sunscreen SPF 50'']),
      (''Bombay Shaving Company'',
       [''Charcoal Face Wash'',
        ''After Shave Balm'',
        ''Hair Serum for Men'']),
      (''Beardo'',
       [''Beard Growth Serum'',
        ''Activated Charcoal Peel Mask'',
        ''Anti Hair Fall Shampoo'']),
      (''USTRAA'',
       [''Hair Growth Vitalizer'',
        ''Activated Charcoal Face Scrub'',
        ''Sport Deodorant'']),
      (''Traya Health'',
       [''Hair Ras'',
        ''Hair Vitamins'',
        ''Scalp Oil Treatment Kit'']),
      (''Vedix'',
       [''Customized Hair Oil'',
        ''Herbal Shampoo Kit'',
        ''Vedix Hair Regrowth Kit'']),
      (''BoldFit'',
       [''Whey Protein Gold'',
        ''Pre-Workout'',
        ''Multivitamin for Men'']),
      (''Mamaearth Baby'',
       [''Gentle Cleansing Baby Shampoo'',
        ''Soothing Baby Lotion'',
        ''Baby Massage Oil'']),
      (''Himalaya Baby'',
       [''Himalaya Baby Cream'',
        ''Gentle Baby Shampoo'',
        ''Baby Body Lotion'']),
      (''Bey Bee'',
       [''Organic Baby Powder'',
        ''Natural Baby Wipes'',
        ''Baby Rash Cream'']),
      (''Chicco India'',
       [''Natural Feeling Bottle'',
        ''Baby Snack Melties'',
        ''Baby Oatmeal Cereal'']),
      (''Horlicks'',
       [''Horlicks Junior'',
        ''Mother'' @ [CHR 0x27] @ ''s Horlicks'',
        ''Horlicks Protein+'']),
      (''Complan'',
       [''Complan NutriGro'',
        ''Complan Chocolate'',
        ''Complan Power of 2'']),
      (''Pediasure'',
       [''PediaSure Vanilla'',
        ''PediaSure Chocolate'',
        ''PediaSure 5+ Immunity'']),
      (''The Moms Co'',
       [''Natural Baby Lotion'',
        ''Stretch Marks Oil'',
        ''Baby Body Butter''])]"

definition default_products :: "string list" where
  "default_products = [''Premium Product'',
     ''Best Seller'',
     ''New Launch'']"

definition MEDIA_TYPES :: "string list" where
  "MEDIA_TYPES = [''IMAGE'',
     ''VIDEO'',
     ''CAROUSEL'']"

definition PLATFORMS :: "string list" where
  "PLATFORMS = [''facebook'',
     ''instagram'',
     ''messenger'',
     ''audience_network'']"

definition SPEND_RANGES :: "(string \<times> string) list" where
  "SPEND_RANGES =
     [(''100'', ''499''),
      (''500'', ''999''),
      (''1000'', ''4999''),
      (''5000'', ''9999''),
      (''10000'', ''49999''),
      (''50000'', ''99999'')]"

definition IMPRESSION_RANGES :: "(string \<times> string) list" where
  "IMPRESSION_RANGES =
     [(''1000'', ''4999''),
      (''5000'', ''9999''),
      (''10000'', ''49999''),
      (''50000'', ''99999''),
      (''100000'', ''499999''),
      (''500000'', ''999999'')]"

subsection \<open>Random values\<close>

text \<open>
  The module draws from Python's global random generator. The raw values that the
  generator yields are an input of the model: \<open>draws i j\<close> is the raw value of the
  \<open>j\<close>-th drawing for the ad with index \<open>i\<close>. \<open>random()\<close> is a multiple of \<open>2 ^ -53\<close>
  below 1; \<open>randint\<close>, \<open>choice\<close> and \<open>sample\<close> pick by position. \<open>randint(a, b)\<close>
  raises \<open>ValueError\<close> for an empty range; \<open>pick_int a b\<close> is its value for \<open>a \<le> b\<close>.
  All lists that \<open>choice\<close> is applied to are the non-empty lists of the tables.
\<close>

definition random_unit :: "nat \<Rightarrow> rat" where
  "random_unit raw = of_nat (raw mod 2 ^ 53) / 2 ^ 53"

definition pick_int :: "int \<Rightarrow> int \<Rightarrow> nat \<Rightarrow> int" where
  "pick_int a b raw = a + int (raw mod nat (b - a + 1))"

definition randint :: "int \<Rightarrow> int \<Rightarrow> nat \<Rightarrow> py_exc + int" where
  "randint a b raw = (if b < a then Inl ValueError else Inr (pick_int a b raw))"

definition choice :: "'a list \<Rightarrow> nat \<Rightarrow> 'a" where
  "choice xs raw = xs ! (raw mod length xs)"

fun sample :: "'a list \<Rightarrow> nat \<Rightarrow> nat list \<Rightarrow> 'a list" where
  "sample pool 0 raws = []"
| "sample pool (Suc k) raws =
     (let j = hd raws mod length pool
      in pool ! j # sample (take j pool @ drop (Suc j) pool) k (tl raws))"

text \<open>
  \<open>random.choices(MEDIA_TYPES, weights=MEDIA_WEIGHTS)[0]\<close>: the weights are
  accumulated with float additions, and the position is that of the first accumulated
  weight above \<open>random() * total\<close>, the last position at most.
\<close>

definition MEDIA_WEIGHTS :: "rat list" where
  "MEDIA_WEIGHTS = [fl (40 / 100), fl (35 / 100), fl (25 / 100)]"

definition choose_media :: "nat \<Rightarrow> string" where
  "choose_media raw =
     (let c0 = MEDIA_WEIGHTS ! 0;
          c1 = fl (c0 + MEDIA_WEIGHTS ! 1);
          c2 = fl (c1 + MEDIA_WEIGHTS ! 2);
          total = fl (c2 + 0);
          x = fl (random_unit raw * total)
      in MEDIA_TYPES ! (if x < c0 then 0 else if x < c1 then 1 else 2))"

subsection \<open>generate\_sample\_ads\<close>

text \<open>
  \<open>s.replace(old, new)\<close> for a non-empty \<open>old\<close>, and \<open>s.replace(' ', '_')\<close>.
\<close>

function py_replace :: "string \<Rightarrow> string \<Rightarrow> string \<Rightarrow> string" where
  "py_replace old new s =
     (if s = [] \<or> old = [] then s
      else if take (length old) s = old then new @ py_replace old new (drop (length old) s)
      else hd s # py_replace old new (tl s))"
  by pat_completeness auto
termination
  by (relation "measure (\<lambda>(old, new, s). length s)") auto

declare py_replace.simps [simp del]

definition replace_space :: "string \<Rightarrow> string" where
  "replace_space s = map (\<lambda>c. if c = CHR '' '' then CHR ''_'' else c) s"

text \<open>
  A generated ad. The field \<open>s_k\<close> is the key \<open>k\<close> of the dictionary and \<open>s_u_k\<close> the
  key \<open>_k\<close>. The times are written by \<open>strftime\<close> with the format
  \<open>%Y-%m-%dT%H:%M:%S+0000\<close>: the parameter \<open>strftime\<close> of the model.
\<close>

record sample_ad =
  s_id :: string
  s_page_name :: string
  s_page_id :: string
  s_ad_creation_time :: string
  s_ad_delivery_start_time :: string
  s_ad_delivery_stop_time :: "string option"
  s_ad_creative_bodies :: "string list"
  s_ad_creative_link_titles :: "string list"
  s_ad_creative_link_descriptions :: "string list"
  s_media_type :: string
  s_publisher_platforms :: "string list"
  s_spend :: "string \<times> string"
  s_impressions :: "string \<times> string"
  s_languages :: "string list"
  s_ad_snapshot_url :: string
  s_u_is_sample :: bool
  s_u_theme :: string
  s_u_is_active :: bool
  s_u_run_days :: int
  s_u_is_top_performer :: bool
  s_u_brand_key :: string
  s_u_competitor :: string
  s_u_product :: string

definition templates_for :: "string \<Rightarrow> template list" where
  "templates_for brand_key =
     (if brand_key = ''bebodywise'' then bebodywise_competitors
      else if brand_key = ''manmatters'' then manmatters_competitors
      else littlejoys_competitors)"

definition product_names :: "string \<Rightarrow> string list" where
  "product_names competitor_name =
     (case map_of product_table competitor_name of
        None \<Rightarrow> default_products
      | Some names \<Rightarrow> names)"

text \<open>One day, in microseconds; \<open>timedelta.days\<close> of a difference is the floor.\<close>

definition day :: int where
  "day = 86400 * 1000000"

text \<open>
  The body of the loop, for the ad with index \<open>i\<close>; \<open>raw j\<close> is its \<open>j\<close>-th raw random
  value. \<open>now\<close> is \<open>datetime.now()\<close>, a naive local time. A \<open>datetime\<close> outside the
  years 1 to 9999 raises \<open>OverflowError\<close>.
\<close>

definition make_ad ::
  "(string \<Rightarrow> string) \<Rightarrow> (int \<Rightarrow> string) \<Rightarrow> (nat \<Rightarrow> nat) \<Rightarrow> int \<Rightarrow> int \<Rightarrow> string \<Rightarrow> string \<Rightarrow>
   int \<Rightarrow> nat \<Rightarrow> py_exc + sample_ad" where
  "make_ad str_lower strftime raw now utc_offset competitor_name brand_key days_range i =
     (let template = choice (templates_for brand_key) (raw 0);
          product = choice (product_names competitor_name) (raw 1);
          body_template = choice (bodies template) (raw 2);
          title_template = choice (titles template) (raw 3);
          body = py_replace ''{product}'' product
                   (py_replace ''{brand}'' competitor_name body_template);
          title = py_replace ''{product}'' product
                    (py_replace ''{brand}'' competitor_name title_template);
          media_type = choose_media (raw 4)
      in (case randint 1 days_range (raw 5) of
            Inl e \<Rightarrow> Inl e
          | Inr days_ago_start \<Rightarrow>
              (let start_date = now - days_ago_start * day;
                   is_active = (fl (3 / 10) < random_unit (raw 6));
                   stop_date = (if is_active then None
                                else Some (start_date + pick_int 7 45 (raw 7) * day))
               in if start_date < min_datetime
                    \<or> (case stop_date of None \<Rightarrow> False | Some s \<Rightarrow> max_datetime < s)
                  then Inl OverflowError
                  else
                    (let run_days = (if is_active then (now - start_date) div day
                                     else (the stop_date - start_date) div day);
                         is_top_performer = (30 < run_days);
                         num_platforms = pick_int 1 3 (raw 8);
                         platforms = sample PLATFORMS (nat num_platforms)
                                       [raw 9, raw 10, raw 11];
                         slug = replace_space (str_lower competitor_name)
                     in Inr
                       \<lparr>s_id = ''sample_'' @ slug @ ''_'' @ str_nat i @ ''_''
                                 @ str_int (let ts = timestamp utc_offset now
                                            in if 0 \<le> ts then \<lfloor>ts\<rfloor> else \<lceil>ts\<rceil>),
                        s_page_name = competitor_name,
                        s_page_id = ''page_'' @ slug,
                        s_ad_creation_time = strftime start_date,
                        s_ad_delivery_start_time = strftime start_date,
                        s_ad_delivery_stop_time = map_option strftime stop_date,
                        s_ad_creative_bodies = [body],
                        s_ad_creative_link_titles = [title],
                        s_ad_creative_link_descriptions =
                          [''Shop '' @ product @ '' by '' @ competitor_name @
                           '' '' @ [CHR 0xE2, CHR 0x80, CHR 0x94] @ '' Free shipping on orders above '' @ [CHR 0xE2, CHR 0x82, CHR 0xB9] @ ''499''],
                        s_media_type = media_type,
                        s_publisher_platforms = platforms,
                        s_spend = choice SPEND_RANGES (raw 12),
                        s_impressions = choice IMPRESSION_RANGES (raw 13),
                        s_languages = [''en''],
                        s_ad_snapshot_url =
                          ''https://www.facebook.com/ads/archive/render_ad/?id=sample_''
                            @ str_nat i,
                        s_u_is_sample = True,
                        s_u_theme = t_theme template,
                        s_u_is_active = is_active,
                        s_u_run_days = run_days,
                        s_u_is_top_performer = is_top_performer,
                        s_u_brand_key = brand_key,
                        s_u_competitor = competitor_name,
                        s_u_product = product\<rparr>))))"

text \<open>The loop \<open>for i in range(count)\<close>: the first exception ends it.\<close>

fun collect :: "(nat \<Rightarrow> py_exc + 'a) \<Rightarrow> nat list \<Rightarrow> py_exc + 'a list" where
  "collect f [] = Inr []"
| "collect f (i # rest) =
     (case f i of
        Inl e \<Rightarrow> Inl e
      | Inr a \<Rightarrow>
          (case collect f rest of
             Inl e \<Rightarrow> Inl e
           | Inr others \<Rightarrow> Inr (a # others)))"

definition generate_sample_ads ::
  "(string \<Rightarrow> string) \<Rightarrow> (int \<Rightarrow> string) \<Rightarrow> (nat \<Rightarrow> nat \<Rightarrow> nat) \<Rightarrow> int \<Rightarrow> int \<Rightarrow> string \<Rightarrow>
   string \<Rightarrow> int \<Rightarrow> int \<Rightarrow> py_exc + sample_ad list" where
  "generate_sample_ads str_lower strftime draws now utc_offset competitor_name brand_key count
     days_range =
     collect (\<lambda>i. make_ad str_lower strftime (draws i) now utc_offset competitor_name
                    brand_key days_range i)
       [0..<nat count]"

text \<open>Stand-ins for the two library functions and the random values, used in examples.\<close>

definition draws_example :: "nat \<Rightarrow> nat \<Rightarrow> nat" where
  "draws_example i j = 7919 * i + 104729 * j + 13"

section \<open>Properties of the AI analysis engine\<close>

lemma contains_prefix: "contains p (p @ ys)"
proof (cases "p @ ys")
  case Nil
  then show ?thesis by simp
next
  case (Cons a list)
  have "take (length p) (p @ ys) = p" by simp
  then show ?thesis unfolding Cons by simp
qed

lemma contains_append: "contains p (xs @ p @ ys)"
  by (induction xs) (auto simp: contains_prefix)

lemma call_ai_no_key: "call_ai [] outcome n = ([], [])"
  by (simp add: call_ai_def)

lemma call_ai_raises: "fst (call_ai key GenaiRaises n) = []"
  by (simp add: call_ai_def)

lemma clean_reply_empty: "clean_reply [] = []"
  by (simp add: clean_reply_def py_strip_def py_strip_chars_def)

lemma classify_ad_unparseable:
  "json_loads (clean_reply (fst (call_ai key outcome 400))) = None \<Longrightarrow>
   classify_ad key outcome json_loads ad_body ad_title competitor brand_category
     = Inr classify_fallback"
  by (simp add: classify_ad_def parse_reply_def)

lemma classify_ad_returns:
  "\<exists>j. classify_ad key outcome json_loads ad_body ad_title competitor brand_category = Inr j"
  by (simp add: classify_ad_def Let_def split: sum.split)

text \<open>
  Claim C3. Let \<open>json.loads\<close> reject the empty string, as it does. Whenever no
  credential is configured, or the external call fails, or the reply (after the white
  space and code fence are stripped) does not parse, \<open>classify_ad\<close> returns exactly the
  fixed fallback object, whose theme, sentiment and cta\_type are "unknown", whose
  creative\_angle is "Could not analyze" and whose three flags are false; this holds for
  every \<open>ad_body\<close> and \<open>ad_title\<close>, the empty string included. For every input and
  every behaviour of the external service \<open>classify_ad\<close> returns a value and raises
  nothing.
\<close>

theorem classify_ad_fallback:
  assumes loads_empty: "json_loads [] = None"
  shows "(key = [] \<or> outcome = GenaiRaises
            \<or> json_loads (clean_reply (fst (call_ai key outcome 400))) = None
          \<longrightarrow> classify_ad key outcome json_loads ad_body ad_title competitor brand_category
                = Inr classify_fallback)
       \<and> (\<exists>j. classify_ad key outcome json_loads ad_body ad_title competitor brand_category
                = Inr j)
       \<and> classify_fallback = JObj
            [(''theme'', JStr ''unknown''), (''sentiment'', JStr ''unknown''),
             (''cta_type'', JStr ''unknown''), (''creative_angle'', JStr ''Could not analyze''),
             (''has_price_mention'', JBool False), (''has_social_proof'', JBool False),
             (''has_expert_endorsement'', JBool False)]"
proof (intro conjI impI)
  assume "key = [] \<or> outcome = GenaiRaises
            \<or> json_loads (clean_reply (fst (call_ai key outcome 400))) = None"
  then have "json_loads (clean_reply (fst (call_ai key outcome 400))) = None"
    using loads_empty by (auto simp: call_ai_no_key call_ai_raises clean_reply_empty)
  then show "classify_ad key outcome json_loads ad_body ad_title competitor brand_category
                = Inr classify_fallback"
    by (rule classify_ad_unparseable)
next
  show "\<exists>j. classify_ad key outcome json_loads ad_body ad_title competitor brand_category = Inr j"
    by (rule classify_ad_returns)
next
  show "classify_fallback = JObj
            [(''theme'', JStr ''unknown''), (''sentiment'', JStr ''unknown''),
             (''cta_type'', JStr ''unknown''), (''creative_angle'', JStr ''Could not analyze''),
             (''has_price_mention'', JBool False), (''has_social_proof'', JBool False),
             (''has_expert_endorsement'', JBool False)]"
    by (simp add: classify_fallback_def)
qed

lemma unparseable_reply:
  "loads_only_empty_object
     (clean_reply (fst (call_ai ''key'' (GenaiText (Some ''Sorry, no JSON today'')) 400))) = None"
  by code_simp

text \<open>
  The theorem at three inputs, one for each case, with empty \<open>ad_body\<close> and
  \<open>ad_title\<close>: no credential; a credential and a failing call; a credential and a reply
  that is not JSON.
\<close>

theorem classify_ad_fallback_witness:
  "loads_only_empty_object [] = None
   \<and> classify_ad [] (GenaiText (Some ''{}'')) loads_only_empty_object [] [] ''Pilgrim'' ''skincare''
       = Inr classify_fallback
   \<and> classify_ad ''key'' GenaiRaises loads_only_empty_object [] [] ''Pilgrim'' ''skincare''
       = Inr classify_fallback
   \<and> loads_only_empty_object
         (clean_reply (fst (call_ai ''key'' (GenaiText (Some ''Sorry, no JSON today'')) 400)))
       = None
   \<and> classify_ad ''key'' (GenaiText (Some ''Sorry, no JSON today'')) loads_only_empty_object
         [] [] ''Pilgrim'' ''skincare''
       = Inr classify_fallback"
  using classify_ad_fallback [of loads_only_empty_object "[]" "GenaiText (Some ''{}'')"
      "[]" "[]" "''Pilgrim''" "''skincare''"]
    classify_ad_fallback [of loads_only_empty_object "''key''" GenaiRaises
      "[]" "[]" "''Pilgrim''" "''skincare''"]
    classify_ad_fallback [of loads_only_empty_object "''key''"
      "GenaiText (Some ''Sorry, no JSON today'')" "[]" "[]" "''Pilgrim''" "''skincare''"]
    unparseable_reply
  by (simp add: loads_only_empty_object_def)

text \<open>
  A reply that does parse is returned as parsed. The white space around it may be any
  white space of Unicode: the reply \<open>{}\<close> between a no-break space (U+00A0) and an
  ideographic space (U+3000) is cleaned to \<open>{}\<close>, and so is the reply in a code fence.
\<close>

lemma clean_reply_unicode_space:
  "clean_reply [CHR 0xC2, CHR 0xA0, CHR 0x7B, CHR 0x7D, CHR 0xE3, CHR 0x80, CHR 0x80] = ''{}''"
  by code_simp

lemma clean_reply_code_fence:
  "clean_reply ([CHR 0x60, CHR 0x60, CHR 0x60] @ ''json'' @ [CHR 0x0A] @ ''{}'' @
                [CHR 0x0A, CHR 0x60, CHR 0x60, CHR 0x60]) = ''{}''"
  by code_simp

lemma classify_ad_parsed:
  "json_loads (clean_reply (fst (call_ai key outcome 400))) = Some j \<Longrightarrow>
   classify_ad key outcome json_loads ad_body ad_title competitor brand_category = Inr j"
  by (simp add: classify_ad_def parse_reply_def)

lemma classify_ad_unicode_space:
  "classify_ad ''key''
     (GenaiText (Some [CHR 0xC2, CHR 0xA0, CHR 0x7B, CHR 0x7D, CHR 0xE3, CHR 0x80, CHR 0x80]))
     loads_only_empty_object [] [] ''Pilgrim'' ''skincare'' = Inr (JObj [])"
  by (rule classify_ad_parsed)
     (simp add: call_ai_def clean_reply_unicode_space loads_only_empty_object_def)

text \<open>
  Claim C9. For an empty ad list \<open>generate_weekly_brief\<close> raises nothing and returns a
  text that contains the phrase "No competitor ad data available for this period", and
  its log of external model calls is empty, whatever the credential, the service, the
  analysis and the other arguments are.
\<close>

theorem generate_weekly_brief_empty:
  "snd (generate_weekly_brief str_lower render key outcome clock brand_key brand_display []
          analysis) = []
   \<and> (\<exists>before after.
         fst (generate_weekly_brief str_lower render key outcome clock brand_key brand_display []
                analysis)
           = Inr (before @ no_data_phrase @ after))
   \<and> (\<exists>brief.
         fst (generate_weekly_brief str_lower render key outcome clock brand_key brand_display []
                analysis)
           = Inr brief
       \<and> contains no_data_phrase brief)"
proof -
  let ?head = "''# Weekly Brief '' @ [CHR 0xE2, CHR 0x80, CHR 0x94] @ '' '' @ brand_display @
     [CHR 0x0A, CHR 0x0A]"
  have run: "generate_weekly_brief str_lower render key outcome clock brand_key brand_display []
               analysis
               = (Inr (empty_brief brand_display), [])"
    by (simp add: generate_weekly_brief_def)
  have parts: "empty_brief brand_display = ?head @ no_data_phrase @ ''.''"
    by (simp add: empty_brief_def no_data_phrase_def)
  have found: "contains no_data_phrase (empty_brief brand_display)"
    unfolding parts by (rule contains_append)
  show ?thesis
    unfolding run fst_conv snd_conv using parts found by blast
qed

subsection \<open>Counters\<close>














subsection \<open>The loop of the fallback analysis\<close>







lemma fallback_batch_analysis_null_theme:
  "fst (top_theme_of ads) = None \<Longrightarrow>
   fallback_batch_analysis str_title format_order ads brand_display = Inl AttributeError"
  by (simp add: fallback_batch_analysis_def Let_def)

lemma fallback_batch_analysis_no_ads:
  "fallback_batch_analysis str_title format_order [] brand_display = Inl ZeroDivisionError"
  by (simp add: fallback_batch_analysis_def Let_def top_theme_of_def empty_tally_def)





lemma py_round_pct_23_of_40: "py_round_pct 23 40 = 57"
  by code_simp

lemma py_round_pct_109_of_200: "py_round_pct 109 200 = 55"
  by code_simp








end
